theory Spec2Isabelle
  imports Complex_Main
begin

section \<open>The Layer Property Flow package of flopy (flopy/modflow/mflpf.py)\<close>

text \<open>
  A shallow embedding of class \<open>ModflowLpf\<close>: its constructor \<open>__init__\<close>, the encoder
  \<open>write_file\<close> and the decoder \<open>load\<close>. Python exceptions are values of type
  \<open>error\<close>; file handles, the lines of the file, the calls made to the array readers
  and the parameter sub-loader are fields of an explicit state that every operation
  threads. Floating-point values are real numbers: the rounding done by number formatting
  and by \<open>float32\<close> storage is outside the embedding. Progress messages (\<open>verbose\<close>)
  and the registration of the package with its model (\<open>add_package\<close>) have no effect on
  the values modelled and are left out.
\<close>

subsection \<open>Errors and fallible computations\<close>

datatype error = IndexError | ValueError | TypeError | NameError | ShapeError | IOError
  | CheckError

definition e_bind :: "error + 'a \<Rightarrow> ('a \<Rightarrow> error + 'b) \<Rightarrow> error + 'b" where
  "e_bind x f = (case x of Inl e \<Rightarrow> Inl e | Inr v \<Rightarrow> f v)"

text \<open>Python indexing \<open>xs[k]\<close> with \<open>k \<ge> 0\<close>: IndexError out of range.\<close>

definition nth_e :: "'a list \<Rightarrow> nat \<Rightarrow> error + 'a" where
  "nth_e xs k = (if k < length xs then Inr (xs ! k) else Inl IndexError)"

subsection \<open>Text: tokens, lines, and Python's string operations\<close>

text \<open>
  A line of the file is kept as the list of its whitespace-separated tokens
  (\<open>line.strip().split()\<close>). A token is integer text (accepted by \<open>int()\<close> and
  \<open>float()\<close>), other numeric text (accepted by \<open>float()\<close> only), or a word.
\<close>

datatype token = IntTok int | FloatTok real | WordTok string

definition py_int :: "token \<Rightarrow> error + int" where
  "py_int t = (case t of IntTok i \<Rightarrow> Inr i | _ \<Rightarrow> Inl ValueError)"

definition py_float :: "token \<Rightarrow> error + real" where
  "py_float t = (case t of IntTok i \<Rightarrow> Inr (of_int i) | FloatTok x \<Rightarrow> Inr x
                 | WordTok w \<Rightarrow> Inl ValueError)"

definition is_space :: "char \<Rightarrow> bool" where
  "is_space c = (c = CHR '' '' \<or> c = CHR 0x09 \<or> c = CHR 0x0A \<or> c = CHR 0x0B
                 \<or> c = CHR 0x0C \<or> c = CHR 0x0D)"

text \<open>\<open>str.split()\<close>: the maximal runs of non-whitespace characters.\<close>

function py_split :: "string \<Rightarrow> string list" where
  "py_split [] = []"
| "py_split (c # cs) =
     (if is_space c then py_split cs
      else takeWhile (\<lambda>x. \<not> is_space x) (c # cs)
           # py_split (dropWhile (\<lambda>x. \<not> is_space x) cs))"
  by pat_completeness auto
termination
  by (relation "measure length") (auto simp: less_Suc_eq_le length_dropWhile_le)

text \<open>\<open>str.upper()\<close> on ASCII text.\<close>

definition upper_char :: "char \<Rightarrow> char" where
  "upper_char c =
     (case map_of (zip ''abcdefghijklmnopqrstuvwxyz'' ''ABCDEFGHIJKLMNOPQRSTUVWXYZ'') c of
        Some u \<Rightarrow> u | None \<Rightarrow> c)"

definition py_upper :: "string \<Rightarrow> string" where
  "py_upper s = map upper_char s"

fun starts_with :: "string \<Rightarrow> string \<Rightarrow> bool" where
  "starts_with [] s = True"
| "starts_with (x # xs) [] = False"
| "starts_with (x # xs) (y # ys) = (x = y \<and> starts_with xs ys)"

text \<open>\<open>x in s\<close> for strings: \<open>x\<close> occurs in \<open>s\<close> as a contiguous substring.\<close>

fun py_in :: "string \<Rightarrow> string \<Rightarrow> bool" where
  "py_in x [] = (x = [])"
| "py_in x (c # cs) = (starts_with x (c # cs) \<or> py_in x cs)"

text \<open>
  \<open>kw in t.upper()\<close> for a token \<open>t\<close> of a line. The text of a numeric token has
  digits, a sign, a point and an exponent letter only, so none of the option keywords
  occurs in it.
\<close>

definition kw_in_upper :: "string \<Rightarrow> token \<Rightarrow> bool" where
  "kw_in_upper kw t = (case t of WordTok w \<Rightarrow> py_in kw (py_upper w) | _ \<Rightarrow> False)"

subsection \<open>Array values and the lines of a file\<close>

text \<open>
  One layer of a 3-D field (a \<open>Util2d\<close>): a uniform scalar or a full grid of rows.
\<close>

datatype u2d_value = Constant real | Grid "real list list"

record util2d =
  u_name :: string
  u_value :: u2d_value

text \<open>
  The lines of a file. \<open>Comment\<close> is a line whose first character is \<open>#\<close>;
  \<open>Line\<close> is any other line of text; \<open>Ctl\<close> is the control record of an array block
  (with the array's name, and the value when the array is uniform); \<open>Data\<close> is the
  rows that follow the control record of a full array.
\<close>

datatype item = Comment string | Line "token list" | Ctl string "real option"
  | Data "real list list"

datatype pyline = EOF | CommentL string | TokL "token list"

definition ctl_tokens :: "string \<Rightarrow> real option \<Rightarrow> token list" where
  "ctl_tokens nm c =
     (case c of Some v \<Rightarrow> [WordTok ''CONSTANT'', FloatTok v, WordTok (CHR ''#'' # nm)]
      | None \<Rightarrow> [WordTok ''INTERNAL'', WordTok (CHR ''#'' # nm)])"

text \<open>\<open>f.readline()\<close> on the remaining lines: the empty string at the end of the file.\<close>

fun readline :: "item list \<Rightarrow> pyline \<times> item list" where
  "readline [] = (EOF, [])"
| "readline (Comment s # r) = (CommentL s, r)"
| "readline (Line ts # r) = (TokL ts, r)"
| "readline (Ctl nm c # r) = (TokL (ctl_tokens nm c), r)"
| "readline (Data [] # r) = readline r"
| "readline (Data (row # rows) # r) =
     (TokL (map FloatTok row), (if rows = [] then r else Data rows # r))"

subsection \<open>The state threaded by the file operations\<close>

text \<open>
  What the collaborators are asked to do, in order: a line read by \<open>f.readline()\<close>,
  a 1-D array read by \<open>read1d\<close>, the parameter sub-loader \<open>mfpar.load\<close> with the
  parameter count, the raw array reader \<open>Util2d.load\<close> with the name it is given, and
  \<open>mfpar.parameter_fill\<close> with its key and layer.
\<close>

datatype call = ReadLine | Read1d | ParLoad int | RawRead string | ParFill string nat

record fstate =
  opened :: bool
  closed :: bool
  content :: "item list"
  calls :: "call list"
  pop_key_list :: "int list"

text \<open>
  \<open>opened\<close>: the operation has opened a file handle of its own; \<open>closed\<close>: it has
  closed it; \<open>content\<close>: the lines written so far (encoder) or not read yet (decoder).
\<close>

definition st0 :: fstate where
  "st0 = \<lparr>opened = False, closed = False, content = [], calls = [], pop_key_list = []\<rparr>"

type_synonym 'a io = "fstate \<Rightarrow> (error + 'a) \<times> fstate"

definition io_ret :: "'a \<Rightarrow> 'a io" where
  "io_ret x = (\<lambda>s. (Inr x, s))"

definition io_raise :: "error \<Rightarrow> 'a io" where
  "io_raise e = (\<lambda>s. (Inl e, s))"

text \<open>An exception ends the operation with the state as it is where it was raised.\<close>

definition io_bind :: "'a io \<Rightarrow> ('a \<Rightarrow> 'b io) \<Rightarrow> 'b io" where
  "io_bind a f = (\<lambda>s. case a s of (Inl e, s') \<Rightarrow> (Inl e, s') | (Inr x, s') \<Rightarrow> f x s')"

definition io_lift :: "error + 'a \<Rightarrow> 'a io" where
  "io_lift r = (\<lambda>s. (r, s))"

definition io_when :: "bool \<Rightarrow> unit io \<Rightarrow> unit io" where
  "io_when b a = (if b then a else io_ret ())"

definition log_call :: "call \<Rightarrow> unit io" where
  "log_call c = (\<lambda>s. (Inr (), s\<lparr>calls := calls s @ [c]\<rparr>))"

subsection \<open>The owning model\<close>

text \<open>
  What the package reads from its model: the grid dimensions, the \<open>steady\<close> flags of the
  stress periods and the confining-bed flags \<open>laycbd\<close> of the DIS package.
\<close>

record mf_model =
  nrow :: nat
  ncol :: nat
  nlay :: nat
  nper :: nat
  steady :: "bool list"
  laycbd :: "int list"

definition is_transient :: "mf_model \<Rightarrow> bool" where
  "is_transient m = (\<not> list_all (\<lambda>b. b) (steady m))"

subsection \<open>The package record and its constructor\<close>

record lpf =
  ipakcb :: int
  hdry :: real
  nplpf :: int
  laytyp :: "int list"
  layavg :: "int list"
  chani :: "real list"
  layvka :: "int list"
  laywet :: "int list"
  wetfct :: "real option"
  iwetit :: "int option"
  ihdwet :: "int option"
  options :: string
  hk :: "util2d list"
  hani :: "util2d list"
  vka :: "util2d list"
  ss :: "util2d list"
  sy :: "util2d list"
  vkcb :: "util2d list"
  wetdry :: "util2d list"

text \<open>A constructor argument that is a scalar or an array.\<close>

datatype 'a arg1 = Scalar1 'a | Array1 "'a list"

datatype arg3 = Scalar3 real | Layers "u2d_value list"

record init_args =
  arg_laytyp :: "int arg1"
  arg_layavg :: "int arg1"
  arg_chani :: "real arg1"
  arg_layvka :: "int arg1"
  arg_laywet :: "int arg1"
  arg_ipakcb :: int
  arg_hdry :: real
  arg_iwdflg :: int
  arg_wetfct :: "real option"
  arg_iwetit :: "int option"
  arg_ihdwet :: "int option"
  arg_hk :: arg3
  arg_hani :: arg3
  arg_vka :: arg3
  arg_ss :: arg3
  arg_sy :: arg3
  arg_vkcb :: arg3
  arg_wetdry :: arg3
  arg_storagecoefficient :: bool
  arg_constantcv :: bool
  arg_thickstrt :: bool
  arg_nocvcorrection :: bool
  arg_novfc :: bool

text \<open>The defaults of \<open>__init__\<close>'s signature.\<close>

definition default_args :: init_args where
  "default_args = \<lparr>arg_laytyp = Scalar1 0, arg_layavg = Scalar1 0, arg_chani = Scalar1 1,
     arg_layvka = Scalar1 0, arg_laywet = Scalar1 0, arg_ipakcb = 53,
     arg_hdry = - (10 ^ 30), arg_iwdflg = 0, arg_wetfct = Some (1 / 10),
     arg_iwetit = Some 1, arg_ihdwet = Some 0, arg_hk = Scalar3 1, arg_hani = Scalar3 1,
     arg_vka = Scalar3 1, arg_ss = Scalar3 (1 / 100000), arg_sy = Scalar3 (15 / 100),
     arg_vkcb = Scalar3 0, arg_wetdry = Scalar3 (- (1 / 100)),
     arg_storagecoefficient = False, arg_constantcv = False, arg_thickstrt = False,
     arg_nocvcorrection = False, arg_novfc = False\<rparr>"

text \<open>
  Modelled from the spec: the array containers \<open>Util2d\<close> and \<open>Util3d\<close> of
  \<open>flopy.utils\<close> are not in the source file. A bare scalar fills all layers or cells; an
  array must match the shape \<open>(nlay,)\<close> or \<open>(nlay, nrow, ncol)\<close>, and a container
  refuses any other shape.
\<close>

definition Util2d_1d :: "nat \<Rightarrow> 'a arg1 \<Rightarrow> error + 'a list" where
  "Util2d_1d n a =
     (case a of Scalar1 v \<Rightarrow> Inr (replicate n v)
      | Array1 xs \<Rightarrow> if length xs = n then Inr xs else Inl ShapeError)"

definition shape_ok :: "mf_model \<Rightarrow> u2d_value \<Rightarrow> bool" where
  "shape_ok m v =
     (case v of Constant c \<Rightarrow> True
      | Grid g \<Rightarrow> length g = nrow m \<and> list_all (\<lambda>row. length row = ncol m) g)"

definition Util3d :: "mf_model \<Rightarrow> arg3 \<Rightarrow> string list \<Rightarrow> error + util2d list" where
  "Util3d m a names =
     (case a of
        Scalar3 v \<Rightarrow> Inr (map (\<lambda>nm. \<lparr>u_name = nm, u_value = Constant v\<rparr>) names)
      | Layers vs \<Rightarrow>
          if length vs = nlay m \<and> list_all (shape_ok m) vs
          then Inr (map (\<lambda>(nm, v). \<lparr>u_name = nm, u_value = v\<rparr>) (zip names vs))
          else Inl ShapeError)"

text \<open>\<open>__init__\<close> (lines 153 to 210).\<close>

definition init_options :: "init_args \<Rightarrow> string" where
  "init_options a =
     '' '' @ (if arg_storagecoefficient a then ''STORAGECOEFFICIENT '' else [])
          @ (if arg_constantcv a then ''CONSTANTCV '' else [])
          @ (if arg_thickstrt a then ''THICKSTRT '' else [])
          @ (if arg_nocvcorrection a then ''NOCVCORRECTION '' else [])
          @ (if arg_novfc a then ''NOVFC '' else [])"

definition vka_keys :: "nat \<Rightarrow> int list \<Rightarrow> string list" where
  "vka_keys n lv = map (\<lambda>k. if lv ! k \<noteq> 0 then ''vani'' else ''vka'') [0..<n]"

definition init :: "mf_model \<Rightarrow> init_args \<Rightarrow> error + lpf" where
  "init m a =
     (let n = nlay m;
          ipak = (if arg_ipakcb a \<noteq> 0 then 53 else 0);
          tag = (if arg_storagecoefficient a then ''storage'' else ''ss'')
      in
      e_bind (Util2d_1d n (arg_laytyp a)) (\<lambda>lt.
      e_bind (Util2d_1d n (arg_layavg a)) (\<lambda>la.
      e_bind (Util2d_1d n (arg_chani a)) (\<lambda>ch.
      e_bind (Util2d_1d n (arg_layvka a)) (\<lambda>lv.
      e_bind (Util2d_1d n (arg_laywet a)) (\<lambda>lw.
      e_bind (Util3d m (arg_hk a) (replicate n ''hk'')) (\<lambda>hk'.
      e_bind (Util3d m (arg_hani a) (replicate n ''hani'')) (\<lambda>hani'.
      e_bind (Util3d m (arg_vka a) (vka_keys n lv)) (\<lambda>vka'.
      e_bind (Util3d m (arg_ss a) (replicate n tag)) (\<lambda>ss'.
      e_bind (Util3d m (arg_sy a) (replicate n ''sy'')) (\<lambda>sy'.
      e_bind (Util3d m (arg_vkcb a) (replicate n ''vkcb'')) (\<lambda>vkcb'.
      e_bind (Util3d m (arg_wetdry a) (replicate n ''wetdry'')) (\<lambda>wetdry'.
        Inr \<lparr>ipakcb = ipak, hdry = arg_hdry a, nplpf = 0, laytyp = lt, layavg = la,
             chani = ch, layvka = lv, laywet = lw, wetfct = arg_wetfct a,
             iwetit = arg_iwetit a, ihdwet = arg_ihdwet a, options = init_options a,
             hk = hk', hani = hani', vka = vka', ss = ss', sy = sy', vkcb = vkcb',
             wetdry = wetdry'\<rparr>)))))))))))))"

subsection \<open>The encoder\<close>

text \<open>
  Modelled from the spec: the writers of the array containers (\<open>Util2d.string\<close> for a
  per-layer array, \<open>get_file_entry\<close> for one layer of a 3-D field) are not in the source
  file. A per-layer array is written as one line of its values; a layer of a 3-D field
  is a self-contained block, the control record alone for a uniform scalar and the
  control record followed by the rows for a full array.
\<close>

definition string_int :: "int list \<Rightarrow> item list" where
  "string_int xs = [Line (map IntTok xs)]"

definition string_real :: "real list \<Rightarrow> item list" where
  "string_real xs = [Line (map FloatTok xs)]"

definition get_file_entry :: "util2d \<Rightarrow> item list" where
  "get_file_entry u =
     (case u_value u of Constant c \<Rightarrow> [Ctl (u_name u) (Some c)]
      | Grid g \<Rightarrow> [Ctl (u_name u) None, Data g])"

text \<open>
  \<open>open(self.fn_path, 'w')\<close>, \<open>f.write\<close> and \<open>f.close()\<close>. A format field with a
  presentation type (\<open>10d\<close>, \<open>10f\<close>) raises TypeError on \<open>None\<close>.
\<close>

definition f_open_w :: "unit io" where
  "f_open_w = (\<lambda>s. (Inr (), s\<lparr>opened := True, closed := False, content := []\<rparr>))"

definition f_write :: "item list \<Rightarrow> unit io" where
  "f_write its = (\<lambda>s. (Inr (), s\<lparr>content := content s @ its\<rparr>))"

definition f_close :: "unit io" where
  "f_close = (\<lambda>s. (Inr (), s\<lparr>closed := True\<rparr>))"

definition fmt_d :: "int option \<Rightarrow> error + token" where
  "fmt_d v = (case v of None \<Rightarrow> Inl TypeError | Some i \<Rightarrow> Inr (IntTok i))"

definition fmt_f :: "real option \<Rightarrow> error + token" where
  "fmt_f v = (case v of None \<Rightarrow> Inl TypeError | Some x \<Rightarrow> Inr (FloatTok x))"

definition heading :: string where
  "heading = ''# LPF for MODFLOW, generated by Flopy.''"

definition header_line :: "lpf \<Rightarrow> item" where
  "header_line self =
     Line ([IntTok (ipakcb self), FloatTok (hdry self), IntTok (nplpf self)]
           @ map WordTok (py_split (options self)))"

definition wet_line :: "lpf \<Rightarrow> error + item" where
  "wet_line self =
     e_bind (fmt_f (wetfct self)) (\<lambda>a.
     e_bind (fmt_d (iwetit self)) (\<lambda>b.
     e_bind (fmt_d (ihdwet self)) (\<lambda>c. Inr (Line [a, b, c]))))"

text \<open>\<open>f.write(self.x[k].get_file_entry())\<close>\<close>

definition write_entry :: "util2d list \<Rightarrow> nat \<Rightarrow> unit io" where
  "write_entry us k = io_bind (io_lift (nth_e us k)) (\<lambda>u. f_write (get_file_entry u))"

text \<open>The body of the loop over the layers (lines 256 to 267).\<close>

definition write_layer :: "lpf \<Rightarrow> mf_model \<Rightarrow> bool \<Rightarrow> nat \<Rightarrow> unit io" where
  "write_layer self m transient k =
     io_bind (write_entry (hk self) k) (\<lambda>_.
     io_bind (io_lift (nth_e (chani self) k)) (\<lambda>c.
     io_bind (io_when (c < 1) (write_entry (hani self) k)) (\<lambda>_.
     io_bind (write_entry (vka self) k) (\<lambda>_.
     io_bind (io_when transient
        (io_bind (write_entry (ss self) k) (\<lambda>_.
         io_bind (io_lift (nth_e (laytyp self) k)) (\<lambda>t.
         io_when (t \<noteq> 0) (write_entry (sy self) k))))) (\<lambda>_.
     io_bind (io_lift (nth_e (laycbd m) k)) (\<lambda>cb.
     io_bind (io_when (cb > 0) (write_entry (vkcb self) k)) (\<lambda>_.
     io_bind (io_lift (nth_e (laywet self) k)) (\<lambda>w.
     io_when (w \<noteq> 0)
        (io_bind (io_lift (nth_e (laytyp self) k)) (\<lambda>t.
         io_when (t \<noteq> 0) (write_entry (wetdry self) k)))))))))))"

fun write_layers :: "lpf \<Rightarrow> mf_model \<Rightarrow> bool \<Rightarrow> nat list \<Rightarrow> unit io" where
  "write_layers self m transient [] = io_ret ()"
| "write_layers self m transient (k # ks) =
     io_bind (write_layer self m transient k) (\<lambda>_. write_layers self m transient ks)"

text \<open>
  The validator \<open>check\<close> that \<open>write_file\<close> and \<open>load\<close> call is inherited from the
  package base class, which is not in the source file: it is a parameter \<open>chk\<close>, given
  the record, the model and the level, that returns the exception it raises, if any.
\<close>

definition run_check :: "(lpf \<Rightarrow> mf_model \<Rightarrow> nat \<Rightarrow> error option) \<Rightarrow> lpf \<Rightarrow> mf_model
    \<Rightarrow> nat \<Rightarrow> unit io" where
  "run_check chk self m level =
     (case chk self m level of None \<Rightarrow> io_ret () | Some e \<Rightarrow> io_raise e)"

text \<open>\<open>write_file\<close> (lines 212 to 269).\<close>

definition write_file :: "(lpf \<Rightarrow> mf_model \<Rightarrow> nat \<Rightarrow> error option) \<Rightarrow> lpf \<Rightarrow> mf_model
    \<Rightarrow> bool \<Rightarrow> unit io" where
  "write_file chk self m check =
     io_bind (io_when check (run_check chk self m 1)) (\<lambda>_.
     io_bind f_open_w (\<lambda>_.
     io_bind (f_write [Comment heading]) (\<lambda>_.
     io_bind (f_write [header_line self]) (\<lambda>_.
     io_bind (f_write (string_int (laytyp self))) (\<lambda>_.
     io_bind (f_write (string_int (layavg self))) (\<lambda>_.
     io_bind (f_write (string_real (chani self))) (\<lambda>_.
     io_bind (f_write (string_int (layvka self))) (\<lambda>_.
     io_bind (f_write (string_int (laywet self))) (\<lambda>_.
     io_bind (io_when (sum_list (laywet self) > 0)
        (io_bind (io_lift (wet_line self)) (\<lambda>l. f_write [l]))) (\<lambda>_.
     io_bind (write_layers self m (is_transient m) [0..<nlay m]) (\<lambda>_.
     f_close)))))))))))"

subsection \<open>The decoder\<close>

text \<open>
  The parameter sub-loader of \<open>flopy.modflow.mfpar\<close> is not in the source file: its two
  functions are parameters. \<open>par_load\<close> is given the parameter count and the remaining
  lines and returns the parameter types, the parameter dictionary and the lines it left;
  \<open>par_fill\<close> is given the key, the dictionary and the layer and returns the array.
\<close>

record 'pd mfpar =
  par_load :: "int \<Rightarrow> item list \<Rightarrow> error + ((string list \<times> 'pd) \<times> item list)"
  par_fill :: "string \<Rightarrow> 'pd \<Rightarrow> nat \<Rightarrow> error + u2d_value"

datatype fsrc = Filename string | Handle "item list"

text \<open>
  \<open>if not hasattr(f, 'read'): f = open(filename, 'r')\<close>: a handle passed by the caller
  is read where it stands; a file name is opened by the decoder.
\<close>

definition f_open_r :: "(string \<Rightarrow> item list option) \<Rightarrow> fsrc \<Rightarrow> unit io" where
  "f_open_r fs f =
     (case f of
        Handle its \<Rightarrow> (\<lambda>s. (Inr (), s\<lparr>content := its\<rparr>))
      | Filename p \<Rightarrow>
          (case fs p of None \<Rightarrow> io_raise IOError
           | Some its \<Rightarrow>
               (\<lambda>s. (Inr (), s\<lparr>opened := True, closed := False, content := its\<rparr>))))"

definition f_readline :: "pyline io" where
  "f_readline = (\<lambda>s. case readline (content s) of
      (l, r) \<Rightarrow> (Inr l, s\<lparr>content := r, calls := calls s @ [ReadLine]\<rparr>))"

text \<open>
  The loop over the heading (lines 466 to 469): \<open>line[0]\<close> raises IndexError on the
  empty string that \<open>readline\<close> returns at the end of the file.
\<close>

function read_header_line :: "token list io" where
  "read_header_line s =
     (case f_readline s of
        (Inl e, s') \<Rightarrow> (Inl e, s')
      | (Inr EOF, s') \<Rightarrow> (Inl IndexError, s')
      | (Inr (CommentL c), s') \<Rightarrow> read_header_line s'
      | (Inr (TokL ts), s') \<Rightarrow> (Inr ts, s'))"
  by pat_completeness auto
termination
proof -
  have shorter: "readline its = (CommentL c, r) \<Longrightarrow> length r < length its" for its c r
    by (induction its arbitrary: r rule: readline.induct) (auto split: if_splits)
  show ?thesis
    by (relation "measure (\<lambda>s. length (content s))")
       (auto simp: f_readline_def split: prod.splits dest: shorter)
qed

declare read_header_line.simps [simp del]

text \<open>Item 1 (line 476): \<open>int(t[0]), float(t[1]), int(t[2])\<close>, left to right.\<close>

definition parse_item1 :: "token list \<Rightarrow> error + (int \<times> real \<times> int)" where
  "parse_item1 t =
     e_bind (e_bind (nth_e t 0) py_int) (\<lambda>a.
     e_bind (e_bind (nth_e t 1) py_float) (\<lambda>b.
     e_bind (e_bind (nth_e t 2) py_int) (\<lambda>c. Inr (a, b, c))))"

record optflags =
  storagecoefficient :: bool
  constantcv :: bool
  thickstrt :: bool
  nocvcorrection :: bool
  novfc :: bool

definition no_options :: optflags where
  "no_options = \<lparr>storagecoefficient = False, constantcv = False, thickstrt = False,
     nocvcorrection = False, novfc = False\<rparr>"

text \<open>The body of the loop over the option tokens (lines 488 to 497).\<close>

definition option_step :: "token \<Rightarrow> optflags \<Rightarrow> optflags" where
  "option_step t fl =
     (if kw_in_upper ''STORAGECOEFFICIENT'' t then fl\<lparr>storagecoefficient := True\<rparr>
      else if kw_in_upper ''CONSTANTCV'' t then fl\<lparr>constantcv := True\<rparr>
      else if kw_in_upper ''THICKSTRT'' t then fl\<lparr>thickstrt := True\<rparr>
      else if kw_in_upper ''NOCVCORRECTION'' t then fl\<lparr>nocvcorrection := True\<rparr>
      else if kw_in_upper ''NOVFC'' t then fl\<lparr>novfc := True\<rparr>
      else fl)"

definition parse_options :: "token list \<Rightarrow> optflags" where
  "parse_options t = fold option_step (drop 3 t) no_options"

fun map_e :: "('a \<Rightarrow> error + 'b) \<Rightarrow> 'a list \<Rightarrow> error + 'b list" where
  "map_e f [] = Inr []"
| "map_e f (x # xs) = e_bind (f x) (\<lambda>y. e_bind (map_e f xs) (\<lambda>ys. Inr (y # ys)))"

text \<open>
  Modelled from the spec: the readers of the array containers (\<open>read1d\<close> for a per-layer
  array, \<open>Util2d.load\<close> for one layer of a 3-D field) are not in the source file. They
  read what the writers write: \<open>read1d\<close> one line with a value for each layer, converted
  to the array's type; \<open>Util2d.load\<close> one block, a control record with the uniform value
  or a control record and the rows of an array of the shape asked for. Anything else is
  a parse failure.
\<close>

definition read1d :: "(token \<Rightarrow> error + 'a) \<Rightarrow> nat \<Rightarrow> 'a list io" where
  "read1d conv n =
     io_bind (log_call Read1d) (\<lambda>_. (\<lambda>s.
       case readline (content s) of
         (TokL ts, r) \<Rightarrow>
           (if n \<le> length ts then (map_e conv (take n ts), s\<lparr>content := r\<rparr>)
            else (Inl ValueError, s\<lparr>content := r\<rparr>))
       | (l, r) \<Rightarrow> (Inl ValueError, s\<lparr>content := r\<rparr>)))"

fun read_block :: "mf_model \<Rightarrow> item list \<Rightarrow> error + (u2d_value \<times> item list)" where
  "read_block m (Ctl nm (Some c) # r) = Inr (Constant c, r)"
| "read_block m (Ctl nm None # Data g # r) =
     (if shape_ok m (Grid g) then Inr (Grid g, r) else Inl ValueError)"
| "read_block m its = Inl ValueError"

definition Util2d_load :: "mf_model \<Rightarrow> string \<Rightarrow> u2d_value io" where
  "Util2d_load m nm =
     io_bind (log_call (RawRead nm)) (\<lambda>_. (\<lambda>s.
       case read_block m (content s) of
         Inl e \<Rightarrow> (Inl e, s)
       | Inr (v, r) \<Rightarrow> (Inr v, s\<lparr>content := r\<rparr>)))"

text \<open>
  Modelled from the spec: the cast of a float array to the integer type of its container
  (\<open>layvka\<close> is read as \<open>float32\<close> and stored as \<open>int\<close>) truncates towards zero.
\<close>

definition py_trunc :: "real \<Rightarrow> int" where
  "py_trunc x = (if 0 \<le> x then \<lfloor>x\<rfloor> else \<lceil>x\<rceil>)"

definition mfpar_load :: "'pd mfpar \<Rightarrow> int \<Rightarrow> (string list \<times> 'pd) io" where
  "mfpar_load P n =
     io_bind (log_call (ParLoad n)) (\<lambda>_. (\<lambda>s.
       case par_load P n (content s) of
         Inl e \<Rightarrow> (Inl e, s)
       | Inr (res, r) \<Rightarrow> (Inr res, s\<lparr>content := r\<rparr>)))"

text \<open>
  \<open>mfpar.parameter_fill(model, (nrow, ncol), key, parm_dict, findlayer=k)\<close>;
  \<open>parm_dict\<close> is bound only when \<open>mfpar.load\<close> has run.
\<close>

definition parameter_fill :: "'pd mfpar \<Rightarrow> string \<Rightarrow> 'pd option \<Rightarrow> nat \<Rightarrow> u2d_value io" where
  "parameter_fill P key pd k =
     io_bind (log_call (ParFill key k)) (\<lambda>_.
       (case pd of None \<Rightarrow> io_raise NameError | Some d \<Rightarrow> io_lift (par_fill P key d k)))"

text \<open>
  The choice made for \<open>hk\<close>, \<open>hani\<close>, \<open>ss\<close>, \<open>sy\<close> and \<open>vkcb\<close> (for instance lines 551
  to 556): the raw array reader, or one line read and a parameter fill.
\<close>

definition load_field :: "'pd mfpar \<Rightarrow> mf_model \<Rightarrow> string list \<Rightarrow> 'pd option \<Rightarrow> string
    \<Rightarrow> nat \<Rightarrow> u2d_value io" where
  "load_field P m par_types pd nm k =
     (if nm \<notin> set par_types then Util2d_load m nm
      else io_bind f_readline (\<lambda>line. parameter_fill P nm pd k))"

text \<open>The vertical field (lines 570 to 581).\<close>

definition load_vka :: "'pd mfpar \<Rightarrow> mf_model \<Rightarrow> string list \<Rightarrow> 'pd option \<Rightarrow> real
    \<Rightarrow> nat \<Rightarrow> u2d_value io" where
  "load_vka P m par_types pd lvk k =
     (let key = (if lvk \<noteq> 0 then ''vani'' else ''vka'') in
      if ''vka'' \<notin> set par_types \<and> ''vani'' \<notin> set par_types then Util2d_load m key
      else io_bind f_readline (\<lambda>line.
             let key = (if ''vani'' \<in> set par_types then ''vani'' else ''vka'')
             in parameter_fill P key pd k))"

record loaded =
  f_hk :: "u2d_value list"
  f_hani :: "u2d_value list"
  f_vka :: "u2d_value list"
  f_ss :: "u2d_value list"
  f_sy :: "u2d_value list"
  f_vkcb :: "u2d_value list"
  f_wetdry :: "u2d_value list"

text \<open>\<open>hk = [0] * nlay\<close> and the six lists after it (lines 541 to 547).\<close>

definition fields0 :: "nat \<Rightarrow> loaded" where
  "fields0 n = \<lparr>f_hk = replicate n (Constant 0), f_hani = replicate n (Constant 0),
     f_vka = replicate n (Constant 0), f_ss = replicate n (Constant 0),
     f_sy = replicate n (Constant 0), f_vkcb = replicate n (Constant 0),
     f_wetdry = replicate n (Constant 0)\<rparr>"

record layer_flags =
  p_laytyp :: "int list"
  p_chani :: "real list"
  p_layvka :: "real list"
  p_laywet :: "int list"

text \<open>The body of the loop over the layers (lines 549 to 619).\<close>

definition load_layer :: "'pd mfpar \<Rightarrow> mf_model \<Rightarrow> string list \<Rightarrow> 'pd option \<Rightarrow> bool
    \<Rightarrow> layer_flags \<Rightarrow> nat \<Rightarrow> loaded \<Rightarrow> loaded io" where
  "load_layer P m par_types pd transient fl k acc =
     io_bind (load_field P m par_types pd ''hk'' k) (\<lambda>t.
     io_bind (io_ret (acc\<lparr>f_hk := (f_hk acc)[k := t]\<rparr>)) (\<lambda>acc.
     io_bind (io_lift (nth_e (p_chani fl) k)) (\<lambda>c.
     io_bind (if c < 1
              then io_bind (load_field P m par_types pd ''hani'' k) (\<lambda>t.
                     io_ret (acc\<lparr>f_hani := (f_hani acc)[k := t]\<rparr>))
              else io_ret acc) (\<lambda>acc.
     io_bind (io_lift (nth_e (p_layvka fl) k)) (\<lambda>lvk.
     io_bind (load_vka P m par_types pd lvk k) (\<lambda>t.
     io_bind (io_ret (acc\<lparr>f_vka := (f_vka acc)[k := t]\<rparr>)) (\<lambda>acc.
     io_bind (if transient
              then io_bind (load_field P m par_types pd ''ss'' k) (\<lambda>t.
                   io_bind (io_ret (acc\<lparr>f_ss := (f_ss acc)[k := t]\<rparr>)) (\<lambda>acc.
                   io_bind (io_lift (nth_e (p_laytyp fl) k)) (\<lambda>lt.
                     if lt \<noteq> 0
                     then io_bind (load_field P m par_types pd ''sy'' k) (\<lambda>t.
                            io_ret (acc\<lparr>f_sy := (f_sy acc)[k := t]\<rparr>))
                     else io_ret acc)))
              else io_ret acc) (\<lambda>acc.
     io_bind (io_lift (nth_e (laycbd m) k)) (\<lambda>cb.
     io_bind (if cb > 0
              then io_bind (load_field P m par_types pd ''vkcb'' k) (\<lambda>t.
                     io_ret (acc\<lparr>f_vkcb := (f_vkcb acc)[k := t]\<rparr>))
              else io_ret acc) (\<lambda>acc.
     io_bind (io_lift (nth_e (p_laywet fl) k)) (\<lambda>lw.
     io_bind (if lw \<noteq> 0 then io_lift (nth_e (p_laytyp fl) k) else io_ret 0) (\<lambda>lt.
       if lw \<noteq> 0 \<and> lt \<noteq> 0
       then io_bind (Util2d_load m ''wetdry'') (\<lambda>t.
              io_ret (acc\<lparr>f_wetdry := (f_wetdry acc)[k := t]\<rparr>))
       else io_ret acc))))))))))))"

fun load_layers :: "'pd mfpar \<Rightarrow> mf_model \<Rightarrow> string list \<Rightarrow> 'pd option \<Rightarrow> bool
    \<Rightarrow> layer_flags \<Rightarrow> nat list \<Rightarrow> loaded \<Rightarrow> loaded io" where
  "load_layers P m par_types pd transient fl [] acc = io_ret acc"
| "load_layers P m par_types pd transient fl (k # ks) acc =
     io_bind (load_layer P m par_types pd transient fl k acc)
       (load_layers P m par_types pd transient fl ks)"

text \<open>Item 7 (lines 524 to 531).\<close>

definition parse_item7 :: "token list \<Rightarrow> error + (real \<times> int \<times> int)" where
  "parse_item7 t =
     e_bind (e_bind (nth_e t 0) py_float) (\<lambda>a.
     e_bind (e_bind (nth_e t 1) py_int) (\<lambda>b.
     e_bind (e_bind (nth_e t 2) py_int) (\<lambda>c. Inr (a, b, c))))"

definition line_tokens :: "pyline \<Rightarrow> token list" where
  "line_tokens l = (case l of TokL ts \<Rightarrow> ts | _ \<Rightarrow> [])"

definition add_pop_key_list :: "int \<Rightarrow> unit io" where
  "add_pop_key_list u = (\<lambda>s. (Inr (), s\<lparr>pop_key_list := pop_key_list s @ [u]\<rparr>))"

text \<open>
  The call of the constructor at the end of \<open>load\<close> (lines 622 to 627): the keyword
  arguments it passes override the defaults.
\<close>

definition load_args :: "int \<Rightarrow> real \<Rightarrow> int list \<Rightarrow> int list \<Rightarrow> real list \<Rightarrow> real list
    \<Rightarrow> int list \<Rightarrow> int \<Rightarrow> real option \<Rightarrow> int option \<Rightarrow> int option \<Rightarrow> loaded \<Rightarrow> optflags
    \<Rightarrow> init_args" where
  "load_args ipak hdr lt la ch lv lw iwetdry wfc wit ihd acc fl =
     default_args\<lparr>arg_ipakcb := ipak, arg_laytyp := Array1 lt, arg_layavg := Array1 la,
       arg_chani := Array1 ch, arg_layvka := Array1 (map py_trunc lv),
       arg_laywet := Array1 lw, arg_hdry := hdr, arg_iwdflg := iwetdry, arg_wetfct := wfc,
       arg_iwetit := wit, arg_ihdwet := ihd, arg_hk := Layers (f_hk acc),
       arg_hani := Layers (f_hani acc), arg_vka := Layers (f_vka acc),
       arg_ss := Layers (f_ss acc), arg_sy := Layers (f_sy acc),
       arg_vkcb := Layers (f_vkcb acc), arg_wetdry := Layers (f_wetdry acc),
       arg_storagecoefficient := storagecoefficient fl, arg_constantcv := constantcv fl,
       arg_thickstrt := thickstrt fl, arg_novfc := novfc fl\<rparr>"

text \<open>
  The local variables of \<open>load\<close> when the loop over the layers starts: what items 1 to 7
  gave, and the parameter types and the parameter dictionary (\<open>par_types\<close> and
  \<open>parm_dict\<close>, bound only when \<open>mfpar.load\<close> has run).
\<close>

record 'pd decoded_head =
  h_ipakcb :: int
  h_hdry :: real
  h_nplpf :: int
  h_opts :: optflags
  h_laytyp :: "int list"
  h_layavg :: "int list"
  h_chani :: "real list"
  h_layvka :: "real list"
  h_laywet :: "int list"
  h_iwetdry :: int
  h_wetfct :: "real option"
  h_iwetit :: "int option"
  h_ihdwet :: "int option"
  h_par_types :: "string list"
  h_parm_dict :: "'pd option"

text \<open>
  The first part of \<open>load\<close> (lines 459 to 536): the handle, the heading, items 1 to 7 and
  the parameters.
\<close>

definition load_head :: "'pd mfpar \<Rightarrow> (string \<Rightarrow> item list option) \<Rightarrow> fsrc \<Rightarrow> mf_model
    \<Rightarrow> 'pd decoded_head io" where
  "load_head P fs f m =
     io_bind (f_open_r fs f) (\<lambda>_.
     io_bind read_header_line (\<lambda>t.
     io_bind (io_lift (parse_item1 t)) (\<lambda>(ipak0, hdr, npl).
     io_bind (io_when (ipak0 \<noteq> 0) (add_pop_key_list ipak0)) (\<lambda>_.
     io_bind (io_ret (if ipak0 \<noteq> 0 then 53 else ipak0)) (\<lambda>ipak.
     io_bind (io_ret (parse_options t)) (\<lambda>fl.
     io_bind (read1d py_int (nlay m)) (\<lambda>lt.
     io_bind (read1d py_int (nlay m)) (\<lambda>la.
     io_bind (read1d py_float (nlay m)) (\<lambda>ch.
     io_bind (read1d py_float (nlay m)) (\<lambda>lv.
     io_bind (read1d py_int (nlay m)) (\<lambda>lw.
     io_bind (io_ret (sum_list lw)) (\<lambda>iwetdry.
     io_bind (if iwetdry > 0
              then io_bind f_readline (\<lambda>line.
                   io_bind (io_lift (parse_item7 (line_tokens line))) (\<lambda>(a, b, c).
                     io_ret (Some a, Some b, Some c)))
              else io_ret (None, None, None)) (\<lambda>(wfc, wit, ihd).
     io_bind (if npl > 0
              then io_bind (mfpar_load P npl) (\<lambda>(pts, d). io_ret (pts, Some d))
              else io_ret ([], None)) (\<lambda>(par_types, pd).
     io_ret \<lparr>h_ipakcb = ipak, h_hdry = hdr, h_nplpf = npl, h_opts = fl, h_laytyp = lt,
       h_layavg = la, h_chani = ch, h_layvka = lv, h_laywet = lw, h_iwetdry = iwetdry,
       h_wetfct = wfc, h_iwetit = wit, h_ihdwet = ihd, h_par_types = par_types,
       h_parm_dict = pd\<rparr>))))))))))))))"

text \<open>
  \<open>load\<close> (lines 424 to 630): the first part, the loop over the layers (lines 541 to 619),
  the call of the constructor (lines 622 to 627) and the check.
\<close>

definition load :: "'pd mfpar \<Rightarrow> (lpf \<Rightarrow> mf_model \<Rightarrow> nat \<Rightarrow> error option)
    \<Rightarrow> (string \<Rightarrow> item list option) \<Rightarrow> fsrc \<Rightarrow> mf_model \<Rightarrow> bool \<Rightarrow> lpf io" where
  "load P chk fs f m check =
     io_bind (load_head P fs f m) (\<lambda>h.
     io_bind (load_layers P m (h_par_types h) (h_parm_dict h) (is_transient m)
                \<lparr>p_laytyp = h_laytyp h, p_chani = h_chani h, p_layvka = h_layvka h,
                   p_laywet = h_laywet h\<rparr>
                [0..<nlay m] (fields0 (nlay m))) (\<lambda>acc.
     io_bind (io_lift (init m (load_args (h_ipakcb h) (h_hdry h) (h_laytyp h) (h_layavg h)
                (h_chani h) (h_layvka h) (h_laywet h) (h_iwetdry h) (h_wetfct h) (h_iwetit h)
                (h_ihdwet h) acc (h_opts h))))
       (\<lambda>lpf.
     io_bind (io_when check (run_check chk lpf m 0)) (\<lambda>_.
     io_ret lpf))))"

subsection \<open>The file layout in the words of the specification\<close>

text \<open>
  The blocks of layer \<open>k\<close> as the specification lists them (section 4.2, step 5):
  \<open>horizCond[k]\<close>; \<open>horizAnisoArray[k]\<close> if \<open>horizAnisoFlag[k] < 1\<close>; \<open>vertCond[k]\<close>;
  if transient, \<open>specificStorage[k]\<close> and, if \<open>layerType[k] != 0\<close>, \<open>specificYield[k]\<close>;
  \<open>confiningBedCond[k]\<close> if the confining-bed flag of the layer is positive;
  \<open>wetDryParams[k]\<close> if \<open>wetFlag[k] != 0\<close> and \<open>layerType[k] != 0\<close>.
\<close>

definition spec_layer :: "lpf \<Rightarrow> mf_model \<Rightarrow> nat \<Rightarrow> item list" where
  "spec_layer r m k =
     get_file_entry (hk r ! k)
     @ (if chani r ! k < 1 then get_file_entry (hani r ! k) else [])
     @ get_file_entry (vka r ! k)
     @ (if is_transient m
        then get_file_entry (ss r ! k)
             @ (if laytyp r ! k \<noteq> 0 then get_file_entry (sy r ! k) else [])
        else [])
     @ (if laycbd m ! k > 0 then get_file_entry (vkcb r ! k) else [])
     @ (if laywet r ! k \<noteq> 0 \<and> laytyp r ! k \<noteq> 0 then get_file_entry (wetdry r ! k)
        else [])"

text \<open>Steps 1 to 3: the heading, the header line and the five per-layer arrays.\<close>

definition spec_head :: "lpf \<Rightarrow> item list" where
  "spec_head r =
     [Comment heading, header_line r, Line (map IntTok (laytyp r)),
      Line (map IntTok (layavg r)), Line (map FloatTok (chani r)),
      Line (map IntTok (layvka r)), Line (map IntTok (laywet r))]"

text \<open>Step 4: the wetting-control line, if \<open>sum(wetFlag) > 0\<close>.\<close>

definition spec_wet :: "lpf \<Rightarrow> item list" where
  "spec_wet r =
     (if sum_list (laywet r) > 0
      then (case wetfct r of None \<Rightarrow> []
            | Some w \<Rightarrow>
                (case iwetit r of None \<Rightarrow> []
                 | Some i \<Rightarrow>
                     (case ihdwet r of None \<Rightarrow> []
                      | Some j \<Rightarrow> [Line [FloatTok w, IntTok i, IntTok j]])))
      else [])"

definition spec_file :: "lpf \<Rightarrow> mf_model \<Rightarrow> item list" where
  "spec_file r m = spec_head r @ spec_wet r @ concat (map (spec_layer r m) [0..<nlay m])"

text \<open>
  The invariants of the data model (section 3): every per-layer sequence has length
  \<open>nlay\<close>, and every 3-D field has \<open>nlay\<close> layers of shape \<open>(nrow, ncol)\<close>.
\<close>

definition lpf_inv :: "mf_model \<Rightarrow> lpf \<Rightarrow> bool" where
  "lpf_inv m r =
     (length (laytyp r) = nlay m \<and> length (layavg r) = nlay m
      \<and> length (chani r) = nlay m \<and> length (layvka r) = nlay m
      \<and> length (laywet r) = nlay m \<and> length (hk r) = nlay m
      \<and> length (hani r) = nlay m \<and> length (vka r) = nlay m \<and> length (ss r) = nlay m
      \<and> length (sy r) = nlay m \<and> length (vkcb r) = nlay m
      \<and> length (wetdry r) = nlay m
      \<and> list_all (\<lambda>u. shape_ok m (u_value u))
           (hk r @ hani r @ vka r @ ss r @ sy r @ vkcb r @ wetdry r))"

subsection \<open>Properties of operations on the state\<close>

text \<open>An operation that leaves the handle as it is, whatever it returns or raises.\<close>

definition keeps_handle :: "'a io \<Rightarrow> bool" where
  "keeps_handle a =
     (\<forall>s. opened (snd (a s)) = opened s \<and> closed (snd (a s)) = closed s)"

text \<open>
  An operation that closes the handle when it returns and leaves it as it is when it
  raises.
\<close>

definition closes_on_return :: "'a io \<Rightarrow> bool" where
  "closes_on_return a =
     (\<forall>s. opened (snd (a s)) = opened s
          \<and> closed (snd (a s)) = (if isl (fst (a s)) then closed s else True))"

subsection \<open>Reading the lines written and the calls made\<close>

text \<open>The names of the array blocks of a file, in order.\<close>

fun block_names :: "item list \<Rightarrow> string list" where
  "block_names [] = []"
| "block_names (Ctl nm c # r) = nm # block_names r"
| "block_names (Comment c # r) = block_names r"
| "block_names (Line ts # r) = block_names r"
| "block_names (Data g # r) = block_names r"

fun is_text_line :: "item \<Rightarrow> bool" where
  "is_text_line (Line ts) = True"
| "is_text_line (Comment c) = False"
| "is_text_line (Ctl nm c) = False"
| "is_text_line (Data g) = False"

text \<open>
  The text lines of a file after the heading, the header line and the five per-layer
  arrays: the wetting-control line, if the file has one.
\<close>

definition wet_lines :: "item list \<Rightarrow> item list" where
  "wet_lines its = filter is_text_line (drop 7 its)"

text \<open>
  The calls the decoder makes for one layer. A field whose name is among the loaded
  parameter types is one line read and one parameter fill, any other field is one raw
  array read; the vertical field is filled when \<open>vka\<close> or \<open>vani\<close> is a parameter type;
  \<open>wetdry\<close> is always a raw array read.
\<close>

definition field_calls :: "string list \<Rightarrow> string \<Rightarrow> nat \<Rightarrow> call list" where
  "field_calls pts nm k = (if nm \<in> set pts then [ReadLine, ParFill nm k] else [RawRead nm])"

definition vka_calls :: "string list \<Rightarrow> real \<Rightarrow> nat \<Rightarrow> call list" where
  "vka_calls pts lvk k =
     (if ''vka'' \<in> set pts \<or> ''vani'' \<in> set pts
      then [ReadLine, ParFill (if ''vani'' \<in> set pts then ''vani'' else ''vka'') k]
      else [RawRead (if lvk \<noteq> 0 then ''vani'' else ''vka'')])"

definition layer_calls :: "string list \<Rightarrow> mf_model \<Rightarrow> layer_flags \<Rightarrow> nat \<Rightarrow> call list" where
  "layer_calls pts m fl k =
     field_calls pts ''hk'' k
     @ (if p_chani fl ! k < 1 then field_calls pts ''hani'' k else [])
     @ vka_calls pts (p_layvka fl ! k) k
     @ (if is_transient m
        then field_calls pts ''ss'' k
             @ (if p_laytyp fl ! k \<noteq> 0 then field_calls pts ''sy'' k else [])
        else [])
     @ (if laycbd m ! k > 0 then field_calls pts ''vkcb'' k else [])
     @ (if p_laywet fl ! k \<noteq> 0 \<and> p_laytyp fl ! k \<noteq> 0 then [RawRead ''wetdry''] else [])"



subsection \<open>Example inputs\<close>

text \<open>A model of one layer, one row and one column, steady, without confining bed.\<close>

definition m1 :: mf_model where
  "m1 = \<lparr>nrow = 1, ncol = 1, nlay = 1, nper = 1, steady = [True], laycbd = [0]\<rparr>"

text \<open>The model of the conditional-presence example: two layers, steady, \<open>laycbd = [0, 1]\<close>.\<close>

definition m2 :: mf_model where
  "m2 = \<lparr>nrow = 1, ncol = 1, nlay = 2, nper = 1, steady = [True], laycbd = [0, 1]\<rparr>"

text \<open>A validator that returns normally.\<close>

definition no_check :: "lpf \<Rightarrow> mf_model \<Rightarrow> nat \<Rightarrow> error option" where
  "no_check r m level = None"

fun words_of :: "token list \<Rightarrow> string list" where
  "words_of [] = []"
| "words_of (WordTok w # ts) = w # words_of ts"
| "words_of (IntTok i # ts) = words_of ts"
| "words_of (FloatTok x # ts) = words_of ts"

text \<open>
  A parameter sub-loader for the examples: it reads one line that lists the parameter
  types, and fills every array with the constant 1.
\<close>

definition toy_par :: "unit mfpar" where
  "toy_par = \<lparr>par_load = (\<lambda>n its. case its of Line ts # r \<Rightarrow> Inr ((words_of ts, ()), r)
                                        | _ \<Rightarrow> Inl ValueError),
              par_fill = (\<lambda>key d k. Inr (Constant 1))\<rparr>"

definition const_layer :: "string \<Rightarrow> real \<Rightarrow> util2d" where
  "const_layer nm c = \<lparr>u_name = nm, u_value = Constant c\<rparr>"

text \<open>The record that \<open>__init__\<close> builds for \<open>m1\<close> from its defaults.\<close>

definition r_default :: lpf where
  "r_default = \<lparr>ipakcb = 53, hdry = - (10 ^ 30), nplpf = 0, laytyp = [0], layavg = [0],
     chani = [1], layvka = [0], laywet = [0], wetfct = Some (1 / 10), iwetit = Some 1,
     ihdwet = Some 0, options = '' '', hk = [const_layer ''hk'' 1],
     hani = [const_layer ''hani'' 1], vka = [const_layer ''vka'' 1],
     ss = [const_layer ''ss'' (1 / 100000)], sy = [const_layer ''sy'' (15 / 100)],
     vkcb = [const_layer ''vkcb'' 0], wetdry = [const_layer ''wetdry'' (- (1 / 100))]\<rparr>"

text \<open>The same for the two layers of \<open>m2\<close>, with \<open>laytyp = laywet = [0, 1]\<close>.\<close>

definition a_presence :: init_args where
  "a_presence = default_args\<lparr>arg_laytyp := Array1 [0, 1], arg_laywet := Array1 [0, 1]\<rparr>"

definition r_presence :: lpf where
  "r_presence = \<lparr>ipakcb = 53, hdry = - (10 ^ 30), nplpf = 0, laytyp = [0, 1],
     layavg = [0, 0], chani = [1, 1], layvka = [0, 0], laywet = [0, 1],
     wetfct = Some (1 / 10), iwetit = Some 1, ihdwet = Some 0, options = '' '',
     hk = [const_layer ''hk'' 1, const_layer ''hk'' 1],
     hani = [const_layer ''hani'' 1, const_layer ''hani'' 1],
     vka = [const_layer ''vka'' 1, const_layer ''vka'' 1],
     ss = [const_layer ''ss'' (1 / 100000), const_layer ''ss'' (1 / 100000)],
     sy = [const_layer ''sy'' (15 / 100), const_layer ''sy'' (15 / 100)],
     vkcb = [const_layer ''vkcb'' 0, const_layer ''vkcb'' 0],
     wetdry = [const_layer ''wetdry'' (- (1 / 100)), const_layer ''wetdry'' (- (1 / 100))]\<rparr>"

text \<open>
  A file for \<open>m1\<close> whose header declares one parameter, of type \<open>w\<close>: the header line
  (budget unit 7, dry head 0, one parameter), \<open>laytyp = 1\<close>, \<open>layavg = 0\<close>, \<open>chani = 1\<close>,
  \<open>layvka = 0\<close>, \<open>laywet = 1\<close>, the wetting-control line, the parameter line, then the
  blocks \<open>body\<close> of the layer.
\<close>

definition file_par :: "string \<Rightarrow> item list \<Rightarrow> item list" where
  "file_par w body =
     [Comment heading, Line [IntTok 7, FloatTok 0, IntTok 1], Line [IntTok 1],
      Line [IntTok 0], Line [FloatTok 1], Line [IntTok 0], Line [IntTok 1],
      Line [FloatTok (1 / 10), IntTok 1, IntTok 0], Line [WordTok w]] @ body"

text \<open>
  With a \<open>vani\<close> parameter: the \<open>hk\<close> block, the line that stands for the vertical
  field, the \<open>wetdry\<close> block.
\<close>

definition file_vani :: "item list" where
  "file_vani = file_par ''vani'' [Ctl ''hk'' (Some 2), Line [IntTok 0], Ctl ''wetdry'' (Some 0)]"


text \<open>The record decoded from \<open>file_vani\<close>.\<close>

definition r_vani :: lpf where
  "r_vani = \<lparr>ipakcb = 53, hdry = 0, nplpf = 0, laytyp = [1], layavg = [0],
     chani = [1], layvka = [0], laywet = [1], wetfct = Some (1 / 10), iwetit = Some 1,
     ihdwet = Some 0, options = '' '', hk = [const_layer ''hk'' 2],
     hani = [const_layer ''hani'' 0], vka = [const_layer ''vka'' 1],
     ss = [const_layer ''ss'' 0], sy = [const_layer ''sy'' 0],
     vkcb = [const_layer ''vkcb'' 0], wetdry = [const_layer ''wetdry'' 0]\<rparr>"

text \<open>Wetting flags that sum to \<open>-1\<close>, on a convertible layer.\<close>

definition a_negwet :: init_args where
  "a_negwet = default_args\<lparr>arg_laywet := Scalar1 (- 1), arg_laytyp := Scalar1 1\<rparr>"

definition r_negwet :: lpf where
  "r_negwet = r_default\<lparr>laytyp := [1], laywet := [- 1]\<rparr>"

text \<open>Wetting active and no wetting factor.\<close>

definition a_nowetfct :: init_args where
  "a_nowetfct = default_args\<lparr>arg_laywet := Scalar1 1, arg_wetfct := None\<rparr>"

definition r_nowetfct :: lpf where
  "r_nowetfct = r_default\<lparr>laywet := [1], wetfct := None\<rparr>"




text \<open>
  A file for \<open>m1\<close> without parameters whose \<open>layvka\<close> is 1: the vertical block is a
  \<open>vani\<close> block.
\<close>

definition file_rawvani :: "item list" where
  "file_rawvani =
     [Comment heading, Line [IntTok 0, FloatTok (- (10 ^ 30)), IntTok 0], Line [IntTok 0],
      Line [IntTok 0], Line [FloatTok 1], Line [IntTok 1], Line [IntTok 0],
      Ctl ''hk'' (Some 1), Ctl ''vani'' (Some 1)]"




text \<open>A horizontal anisotropy of one half for the whole layer.\<close>

definition a_halfchani :: init_args where
  "a_halfchani = default_args\<lparr>arg_chani := Scalar1 (1 / 2)\<rparr>"

definition r_halfchani :: lpf where
  "r_halfchani = r_default\<lparr>chani := [1 / 2]\<rparr>"

section \<open>Proofs\<close>

subsection \<open>Evaluation rules\<close>

lemmas init_eval = init_def default_args_def Util2d_1d_def Util3d_def vka_keys_def
  init_options_def const_layer_def e_bind_def shape_ok_def numeral_2_eq_2

lemmas io_eval = io_bind_def io_ret_def io_lift_def io_when_def io_raise_def run_check_def
  no_check_def st0_def nth_e_def is_transient_def heading_def

lemmas write_eval = write_file_def f_open_w_def f_write_def f_close_def header_line_def
  wet_line_def fmt_d_def fmt_f_def string_int_def string_real_def write_layer_def
  write_entry_def get_file_entry_def is_space_def wet_lines_def

lemmas load_eval = load_def load_head_def f_open_r_def read_header_line.simps f_readline_def
  parse_item1_def py_int_def py_float_def add_pop_key_list_def parse_options_def
  option_step_def kw_in_upper_def no_options_def read1d_def log_call_def parse_item7_def
  line_tokens_def mfpar_load_def toy_par_def fields0_def load_layer_def load_field_def
  load_vka_def Util2d_load_def parameter_fill_def load_args_def file_par_def py_trunc_def
  py_upper_def upper_char_def

subsection \<open>Sequencing\<close>

lemma io_bind_ret [simp]: "io_bind (io_ret x) f = f x"
  by (simp add: io_bind_def io_ret_def)

lemma io_bindE:
  assumes "io_bind a f s = (Inr y, s')"
  obtains x s1 where "a s = (Inr x, s1)" and "f x s1 = (Inr y, s')"
  using assms by (auto simp: io_bind_def split: prod.splits sum.splits)

lemma e_bind_Inr [simp]: "e_bind (Inr x) f = f x"
  by (simp add: e_bind_def)

lemma e_bind_Inl [simp]: "e_bind (Inl e) f = Inl e"
  by (simp add: e_bind_def)

lemma e_bind_eq_Inr: "e_bind x f = Inr y \<longleftrightarrow> (\<exists>v. x = Inr v \<and> f v = Inr y)"
  by (cases x) simp_all

lemma nth_e_in [simp]: "k < length xs \<Longrightarrow> nth_e xs k = Inr (xs ! k)"
  by (simp add: nth_e_def)

subsection \<open>What the constructor establishes\<close>

lemma Util2d_1d_length: "Util2d_1d n a = Inr xs \<Longrightarrow> length xs = n"
  by (auto simp: Util2d_1d_def split: arg1.splits if_splits)

lemma Util3d_length:
  "Util3d m a names = Inr us \<Longrightarrow> length names = nlay m \<Longrightarrow> length us = nlay m"
  by (auto simp: Util3d_def split: arg3.splits if_splits)

lemma Util3d_names:
  "Util3d m a names = Inr us \<Longrightarrow> length names = nlay m \<Longrightarrow> map u_name us = names"
  by (auto simp: Util3d_def comp_def intro: nth_equalityI split: arg3.splits if_splits)

lemma Util3d_shape:
  "Util3d m a names = Inr us \<Longrightarrow> list_all (\<lambda>u. shape_ok m (u_value u)) us"
  by (auto simp: Util3d_def list_all_iff shape_ok_def split: arg3.splits if_splits
      dest!: set_zip_rightD)

lemma init_lengths:
  assumes "init m a = Inr r"
  shows "length (laytyp r) = nlay m" "length (layavg r) = nlay m" "length (chani r) = nlay m"
    "length (layvka r) = nlay m" "length (laywet r) = nlay m"
    "length (hk r) = nlay m" "length (hani r) = nlay m" "length (vka r) = nlay m"
    "length (ss r) = nlay m" "length (sy r) = nlay m" "length (vkcb r) = nlay m"
    "length (wetdry r) = nlay m"
  using assms
  by (auto simp: init_def Let_def e_bind_eq_Inr vka_keys_def
      dest!: Util2d_1d_length dest: Util3d_length)

lemma init_inv:
  assumes "init m a = Inr r"
  shows "lpf_inv m r"
  using init_lengths[OF assms] assms
  by (auto simp: lpf_inv_def init_def Let_def e_bind_eq_Inr dest!: Util3d_shape)

lemma init_parts:
  assumes "init m a = Inr r"
  shows "Util3d m (arg_hk a) (replicate (nlay m) ''hk'') = Inr (hk r)"
    "Util3d m (arg_hani a) (replicate (nlay m) ''hani'') = Inr (hani r)"
    "Util3d m (arg_vka a) (vka_keys (nlay m) (layvka r)) = Inr (vka r)"
    "Util3d m (arg_ss a)
       (replicate (nlay m) (if arg_storagecoefficient a then ''storage'' else ''ss''))
     = Inr (ss r)"
    "Util3d m (arg_sy a) (replicate (nlay m) ''sy'') = Inr (sy r)"
    "Util3d m (arg_vkcb a) (replicate (nlay m) ''vkcb'') = Inr (vkcb r)"
    "Util3d m (arg_wetdry a) (replicate (nlay m) ''wetdry'') = Inr (wetdry r)"
    "Util2d_1d (nlay m) (arg_laytyp a) = Inr (laytyp r)"
    "Util2d_1d (nlay m) (arg_layavg a) = Inr (layavg r)"
    "Util2d_1d (nlay m) (arg_chani a) = Inr (chani r)"
    "Util2d_1d (nlay m) (arg_layvka a) = Inr (layvka r)"
    "Util2d_1d (nlay m) (arg_laywet a) = Inr (laywet r)"
  using assms by (auto simp: init_def Let_def e_bind_eq_Inr)

lemma init_names:
  assumes "init m a = Inr r"
  shows "map u_name (hk r) = replicate (nlay m) ''hk''"
    "map u_name (hani r) = replicate (nlay m) ''hani''"
    "map u_name (vka r) = vka_keys (nlay m) (layvka r)"
    "map u_name (ss r) =
       replicate (nlay m) (if arg_storagecoefficient a then ''storage'' else ''ss'')"
    "map u_name (sy r) = replicate (nlay m) ''sy''"
    "map u_name (vkcb r) = replicate (nlay m) ''vkcb''"
    "map u_name (wetdry r) = replicate (nlay m) ''wetdry''"
  using init_parts(1-7)[OF assms]
  by (simp_all add: Util3d_names vka_keys_def)

lemma init_scalars:
  assumes "init m a = Inr r"
  shows "ipakcb r = (if arg_ipakcb a \<noteq> 0 then 53 else 0)" "nplpf r = 0"
    "hdry r = arg_hdry a" "options r = init_options a" "wetfct r = arg_wetfct a"
    "iwetit r = arg_iwetit a" "ihdwet r = arg_ihdwet a"
  using assms by (auto simp: init_def Let_def e_bind_eq_Inr)

lemma name_nth:
  "map u_name us = replicate n nm \<Longrightarrow> k < n \<Longrightarrow> u_name (us ! k) = nm"
proof -
  assume a: "map u_name us = replicate n nm" and k: "k < n"
  from a have "length us = n" by (metis length_map length_replicate)
  with k have "u_name (us ! k) = map u_name us ! k" by simp
  with a k show ?thesis by simp
qed

subsection \<open>The encoder writes the layout of the specification\<close>

lemma write_entry_ok:
  "k < length us \<Longrightarrow>
   write_entry us k s = (Inr (), s\<lparr>content := content s @ get_file_entry (us ! k)\<rparr>)"
  by (simp add: write_entry_def io_bind_def io_lift_def f_write_def)

lemma write_layer_ok:
  assumes "k < length (hk r)" "k < length (hani r)" "k < length (vka r)" "k < length (ss r)"
    "k < length (sy r)" "k < length (vkcb r)" "k < length (wetdry r)" "k < length (chani r)"
    "k < length (laytyp r)" "k < length (laywet r)" "k < length (laycbd m)"
  shows "write_layer r m (is_transient m) k s =
    (Inr (), s\<lparr>content := content s @ spec_layer r m k\<rparr>)"
  using assms
  by (simp add: write_layer_def spec_layer_def write_entry_ok io_bind_def io_lift_def
      io_when_def io_ret_def)

lemma write_layers_ok:
  assumes "lpf_inv m r" "length (laycbd m) = nlay m" "\<forall>k\<in>set ks. k < nlay m"
  shows "write_layers r m (is_transient m) ks s =
    (Inr (), s\<lparr>content := content s @ concat (map (spec_layer r m) ks)\<rparr>)"
  using assms
proof (induction ks arbitrary: s)
  case Nil
  then show ?case by (simp add: io_ret_def)
next
  case (Cons k ks)
  then have "write_layer r m (is_transient m) k s =
      (Inr (), s\<lparr>content := content s @ spec_layer r m k\<rparr>)"
    by (intro write_layer_ok) (simp_all add: lpf_inv_def)
  with Cons show ?case by (simp add: io_bind_def)
qed

lemma write_file_ok:
  assumes "lpf_inv m r" "length (laycbd m) = nlay m" "check \<longrightarrow> chk r m 1 = None"
    "0 < sum_list (laywet r) \<longrightarrow> wetfct r \<noteq> None \<and> iwetit r \<noteq> None \<and> ihdwet r \<noteq> None"
  shows "write_file chk r m check st0 =
    (Inr (), st0\<lparr>opened := True, closed := True, content := spec_file r m\<rparr>)"
proof -
  have L: "\<And>s. write_layers r m (is_transient m) [0..<nlay m] s =
    (Inr (), s\<lparr>content := content s @ concat (map (spec_layer r m) [0..<nlay m])\<rparr>)"
    using assms(1,2) by (intro write_layers_ok) simp_all
  show ?thesis
    using assms(3,4)
    by (auto simp: write_file_def io_bind_def io_when_def run_check_def io_ret_def f_open_w_def
        f_write_def string_int_def string_real_def io_lift_def wet_line_def fmt_f_def fmt_d_def
        L f_close_def st0_def spec_file_def spec_head_def spec_wet_def)
qed

text \<open>A run of the encoder that returns has passed validation and formatted every line.\<close>

lemma write_file_InrD:
  assumes "fst (write_file chk r m check st0) = Inr ()"
  shows "check \<longrightarrow> chk r m 1 = None"
    "0 < sum_list (laywet r) \<longrightarrow> wetfct r \<noteq> None \<and> iwetit r \<noteq> None \<and> ihdwet r \<noteq> None"
proof -
  show c: "check \<longrightarrow> chk r m 1 = None"
  proof (rule ccontr)
    assume "\<not> (check \<longrightarrow> chk r m 1 = None)"
    then obtain e where "check" "chk r m 1 = Some e" by auto
    then have "fst (write_file chk r m check st0) = Inl e"
      by (simp add: write_file_def io_bind_def io_when_def run_check_def io_raise_def)
    with assms show False by simp
  qed
  show "0 < sum_list (laywet r) \<longrightarrow> wetfct r \<noteq> None \<and> iwetit r \<noteq> None \<and> ihdwet r \<noteq> None"
  proof (rule ccontr)
    assume "\<not> (0 < sum_list (laywet r) \<longrightarrow>
      wetfct r \<noteq> None \<and> iwetit r \<noteq> None \<and> ihdwet r \<noteq> None)"
    then have p: "0 < sum_list (laywet r)"
      and "wetfct r = None \<or> iwetit r = None \<or> ihdwet r = None" by auto
    then have w: "wet_line r = Inl TypeError"
      by (cases "wetfct r"; cases "iwetit r"; cases "ihdwet r")
         (auto simp: wet_line_def fmt_f_def fmt_d_def)
    have "fst (write_file chk r m check st0) = Inl TypeError"
      using c p w
      by (cases check)
         (simp_all add: write_file_def io_bind_def io_when_def run_check_def io_ret_def
          f_open_w_def f_write_def io_lift_def)
    with assms show False by simp
  qed
qed

lemma write_file_content:
  assumes "init m a = Inr r" "length (laycbd m) = nlay m"
    "fst (write_file chk r m check st0) = Inr ()"
  shows "write_file chk r m check st0 =
    (Inr (), st0\<lparr>opened := True, closed := True, content := spec_file r m\<rparr>)"
  using write_file_ok[OF init_inv[OF assms(1)] assms(2)] write_file_InrD[OF assms(3)]
  by blast

lemma text_lines_entry [simp]: "filter is_text_line (get_file_entry u) = []"
  by (simp add: get_file_entry_def split: u2d_value.splits)

lemma text_lines_layer [simp]: "filter is_text_line (spec_layer r m k) = []"
  by (simp add: spec_layer_def)

lemma text_lines_layers [simp]:
  "filter is_text_line (concat (map (spec_layer r m) ks)) = []"
  by (induction ks) simp_all

lemma spec_wet_cases:
  "spec_wet r = [] \<or> (\<exists>w i j. spec_wet r = [Line [FloatTok w, IntTok i, IntTok j]])"
  unfolding spec_wet_def by (auto split: option.splits)

lemma text_lines_wet [simp]: "filter is_text_line (spec_wet r) = spec_wet r"
  using spec_wet_cases[of r]
  by (elim disjE exE) (simp_all only: filter.simps is_text_line.simps if_True)

lemma wet_lines_spec_file: "wet_lines (spec_file r m) = spec_wet r"
  by (simp add: wet_lines_def spec_file_def spec_head_def)

lemma block_names_append [simp]: "block_names (xs @ ys) = block_names xs @ block_names ys"
  by (induction xs rule: block_names.induct) simp_all

lemma block_names_entry [simp]: "block_names (get_file_entry u) = [u_name u]"
  by (simp add: get_file_entry_def split: u2d_value.splits)

subsection \<open>Claims about the encoder\<close>

lemma block_names_head [simp]: "block_names (spec_head r) = []"
  by (simp add: spec_head_def header_line_def)

lemma block_names_wet [simp]: "block_names (spec_wet r) = []"
  using spec_wet_cases[of r] by (elim disjE exE) (simp_all only: block_names.simps)

lemma block_names_layer:
  "block_names (spec_layer r m k) =
     [u_name (hk r ! k)] @ (if chani r ! k < 1 then [u_name (hani r ! k)] else [])
     @ [u_name (vka r ! k)]
     @ (if is_transient m
        then [u_name (ss r ! k)] @ (if laytyp r ! k \<noteq> 0 then [u_name (sy r ! k)] else [])
        else [])
     @ (if laycbd m ! k > 0 then [u_name (vkcb r ! k)] else [])
     @ (if laywet r ! k \<noteq> 0 \<and> laytyp r ! k \<noteq> 0 then [u_name (wetdry r ! k)] else [])"
  by (simp add: spec_layer_def)

text \<open>
  C5. For a model with 2 layers, not transient, with confining-bed flags \<open>[0, 1]\<close>, and a
  record with \<open>laywet = [0, 1]\<close> and \<open>laytyp = [0, 1]\<close>, the encoder returns, it writes
  the wetting-control line, and the array blocks of the file are, in order: \<open>hk\<close>, the
  vertical field (and \<open>hani\<close> between them where \<open>chani < 1\<close>) for layer 0; the same
  for layer 1, followed by \<open>vkcb\<close> and \<open>wetdry\<close>. No storage or specific-yield block
  is written, and \<open>vkcb\<close> and \<open>wetdry\<close> are written for layer 1 only.
\<close>

theorem C5_conditional_presence:
  assumes "init m a = Inr r" "nlay m = 2" "\<not> is_transient m" "laycbd m = [0, 1]"
    "laywet r = [0, 1]" "laytyp r = [0, 1]"
    "wetfct r = Some w" "iwetit r = Some i" "ihdwet r = Some j"
    "check \<longrightarrow> chk r m 1 = None"
  shows "fst (write_file chk r m check st0) = Inr ()
    \<and> wet_lines (content (snd (write_file chk r m check st0)))
        = [Line [FloatTok w, IntTok i, IntTok j]]
    \<and> block_names (content (snd (write_file chk r m check st0)))
        = [''hk''] @ (if chani r ! 0 < 1 then [''hani''] else [])
          @ [if layvka r ! 0 \<noteq> 0 then ''vani'' else ''vka'']
          @ [''hk''] @ (if chani r ! 1 < 1 then [''hani''] else [])
          @ [if layvka r ! 1 \<noteq> 0 then ''vani'' else ''vka'', ''vkcb'', ''wetdry'']"
proof -
  have W: "write_file chk r m check st0 =
      (Inr (), st0\<lparr>opened := True, closed := True, content := spec_file r m\<rparr>)"
    using assms by (intro write_file_ok init_inv[OF assms(1)]) simp_all
  have up: "[0..<nlay m] = [0, 1]"
    using assms(2) by (simp add: numeral_2_eq_2)
  have n0: "u_name (hk r ! 0) = ''hk''" "u_name (hk r ! 1) = ''hk''"
    "u_name (hani r ! 0) = ''hani''" "u_name (hani r ! 1) = ''hani''"
    "u_name (vkcb r ! 1) = ''vkcb''" "u_name (wetdry r ! 1) = ''wetdry''"
    using init_names[OF assms(1)] assms(2) by (auto intro: name_nth)
  have "length (vka r) = 2"
    using init_lengths(8)[OF assms(1)] assms(2) by simp
  then have nv: "u_name (vka r ! 0) = (if layvka r ! 0 \<noteq> 0 then ''vani'' else ''vka'')"
    "u_name (vka r ! 1) = (if layvka r ! 1 \<noteq> 0 then ''vani'' else ''vka'')"
    using init_names(3)[OF assms(1)] assms(2)
      nth_map[of 0 "vka r" u_name] nth_map[of 1 "vka r" u_name]
    by (simp_all add: vka_keys_def numeral_2_eq_2)
  have sw: "spec_wet r = [Line [FloatTok w, IntTok i, IntTok j]]"
    unfolding spec_wet_def using assms(5,7,8,9) by simp
  have wl: "wet_lines (spec_file r m) = [Line [FloatTok w, IntTok i, IntTok j]]"
    using sw by (simp only: wet_lines_spec_file)
  have l0: "block_names (spec_layer r m 0) =
      [''hk''] @ (if chani r ! 0 < 1 then [''hani''] else [])
      @ [if layvka r ! 0 \<noteq> 0 then ''vani'' else ''vka'']"
    unfolding block_names_layer using assms(3,4,5,6) n0 nv by simp
  have l1: "block_names (spec_layer r m 1) =
      [''hk''] @ (if chani r ! 1 < 1 then [''hani''] else [])
      @ [if layvka r ! 1 \<noteq> 0 then ''vani'' else ''vka'', ''vkcb'', ''wetdry'']"
    unfolding block_names_layer using assms(3,4,5,6) n0 nv by simp
  have "block_names (spec_file r m) =
      block_names (spec_layer r m 0) @ block_names (spec_layer r m 1)"
    by (simp add: spec_file_def up)
  then have bn: "block_names (spec_file r m)
        = [''hk''] @ (if chani r ! 0 < 1 then [''hani''] else [])
          @ [if layvka r ! 0 \<noteq> 0 then ''vani'' else ''vka'']
          @ [''hk''] @ (if chani r ! 1 < 1 then [''hani''] else [])
          @ [if layvka r ! 1 \<noteq> 0 then ''vani'' else ''vka'', ''vkcb'', ''wetdry'']"
    unfolding l0 l1 by simp
  from W wl bn show ?thesis by simp
qed

theorem C5_conditional_presence_witness:
  "init m2 a_presence = Inr r_presence \<and> nlay m2 = 2 \<and> \<not> is_transient m2
   \<and> laycbd m2 = [0, 1] \<and> laywet r_presence = [0, 1] \<and> laytyp r_presence = [0, 1]
   \<and> fst (write_file no_check r_presence m2 True st0) = Inr ()
   \<and> wet_lines (content (snd (write_file no_check r_presence m2 True st0)))
       = [Line [FloatTok (1 / 10), IntTok 1, IntTok 0]]
   \<and> block_names (content (snd (write_file no_check r_presence m2 True st0)))
       = [''hk'', ''vka'', ''hk'', ''vka'', ''vkcb'', ''wetdry'']"
proof -
  have h: "init m2 a_presence = Inr r_presence"
    by (simp add: init_eval m2_def a_presence_def r_presence_def)
  have g: "nlay m2 = 2" "\<not> is_transient m2" "laycbd m2 = [0, 1]"
    "laywet r_presence = [0, 1]" "laytyp r_presence = [0, 1]"
    "wetfct r_presence = Some (1 / 10)" "iwetit r_presence = Some 1"
    "ihdwet r_presence = Some 0" "True \<longrightarrow> no_check r_presence m2 1 = None"
    by (simp_all add: m2_def r_presence_def is_transient_def no_check_def)
  have c: "chani r_presence = [1, 1]" "layvka r_presence = [0, 0]"
    by (simp_all add: r_presence_def)
  from C5_conditional_presence[where m = m2 and a = a_presence and r = r_presence
      and w = "1 / 10" and i = 1 and j = 0 and check = True and chk = no_check, OF h g]
    h g c show ?thesis by simp
qed

text \<open>
  C6 (as amended). For a record built by the constructor and written without error, the
  wetting-control line is in the file exactly when \<open>sum(laywet) > 0\<close>: the line is
  absent exactly when the sum is at most 0, which is a sum of 0 when no flag is
  negative.
\<close>

theorem C6_wetting_line:
  assumes "init m a = Inr r" "length (laycbd m) = nlay m"
    "fst (write_file chk r m check st0) = Inr ()"
  shows "wet_lines (content (snd (write_file chk r m check st0))) = spec_wet r
    \<and> (wet_lines (content (snd (write_file chk r m check st0))) = [])
        = (sum_list (laywet r) \<le> 0)
    \<and> (list_all (\<lambda>x. 0 \<le> x) (laywet r)
        \<and> wet_lines (content (snd (write_file chk r m check st0))) = []
        \<longrightarrow> sum_list (laywet r) = 0)"
proof -
  have W: "write_file chk r m check st0 =
      (Inr (), st0\<lparr>opened := True, closed := True, content := spec_file r m\<rparr>)"
    by (rule write_file_content[OF assms])
  have e: "(spec_wet r = []) = (sum_list (laywet r) \<le> 0)"
    using write_file_InrD(2)[OF assms(3)] by (auto simp: spec_wet_def split: option.splits)
  have "list_all (\<lambda>x. 0 \<le> x) (laywet r) \<Longrightarrow> 0 \<le> sum_list (laywet r)"
    by (simp add: list_all_iff sum_list_nonneg)
  with W e show ?thesis by (auto simp: wet_lines_spec_file)
qed

theorem C6_wetting_line_witness:
  "init m2 a_presence = Inr r_presence \<and> length (laycbd m2) = nlay m2
   \<and> fst (write_file no_check r_presence m2 True st0) = Inr ()
   \<and> wet_lines (content (snd (write_file no_check r_presence m2 True st0)))
       = [Line [FloatTok (1 / 10), IntTok 1, IntTok 0]]
   \<and> sum_list (laywet r_presence) = 1
   \<and> init m1 default_args = Inr r_default \<and> length (laycbd m1) = nlay m1
   \<and> fst (write_file no_check r_default m1 True st0) = Inr ()
   \<and> list_all (\<lambda>x. 0 \<le> x) (laywet r_default)
   \<and> wet_lines (content (snd (write_file no_check r_default m1 True st0))) = []
   \<and> sum_list (laywet r_default) = 0"
proof -
  have h2: "init m2 a_presence = Inr r_presence" "length (laycbd m2) = nlay m2"
    by (simp_all add: init_eval m2_def a_presence_def r_presence_def)
  have w2: "fst (write_file no_check r_presence m2 True st0) = Inr ()"
    by (simp add: io_eval write_eval r_presence_def m2_def const_layer_def numeral_2_eq_2)
  have h1: "init m1 default_args = Inr r_default" "length (laycbd m1) = nlay m1"
    by (simp_all add: init_eval m1_def r_default_def)
  have w1: "fst (write_file no_check r_default m1 True st0) = Inr ()"
    by (simp add: io_eval write_eval r_default_def m1_def const_layer_def)
  have n1: "list_all (\<lambda>x. 0 \<le> x) (laywet r_default)"
    by (simp add: r_default_def)
  have s2: "spec_wet r_presence = [Line [FloatTok (1 / 10), IntTok 1, IntTok 0]]"
    "sum_list (laywet r_presence) = 1"
    unfolding spec_wet_def by (simp_all add: r_presence_def)
  have s1: "spec_wet r_default = []" "sum_list (laywet r_default) = 0"
    unfolding spec_wet_def by (simp_all add: r_default_def)
  from C6_wetting_line[OF h2 w2] C6_wetting_line[OF h1 w1] h2 w2 h1 w1 n1 s2 s1
  show ?thesis by simp
qed

theorem C6_wetting_line_counterexample:
  "init m1 a_negwet = Inr r_negwet
   \<and> write_file no_check r_negwet m1 True st0 =
       (Inr (), st0\<lparr>opened := True, closed := True, content :=
          [Comment heading, Line [IntTok 53, FloatTok (- (10 ^ 30)), IntTok 0],
           Line [IntTok 1], Line [IntTok 0], Line [FloatTok 1], Line [IntTok 0],
           Line [IntTok (- 1)], Ctl ''hk'' (Some 1), Ctl ''vka'' (Some 1),
           Ctl ''wetdry'' (Some (- (1 / 100)))]\<rparr>)
   \<and> wet_lines (content (snd (write_file no_check r_negwet m1 True st0))) = []
   \<and> sum_list (laywet r_negwet) = - 1"
  by (simp add: init_eval io_eval write_eval r_negwet_def a_negwet_def r_default_def m1_def)

subsection \<open>The handle\<close>

lemma keeps_handle_ret: "keeps_handle (io_ret x)"
  by (simp add: keeps_handle_def io_ret_def)

lemma keeps_handle_lift: "keeps_handle (io_lift x)"
  by (simp add: keeps_handle_def io_lift_def)

lemma keeps_handle_write: "keeps_handle (f_write its)"
  by (simp add: keeps_handle_def f_write_def)

lemma keeps_handle_bind:
  assumes "keeps_handle a" "\<And>x. keeps_handle (f x)"
  shows "keeps_handle (io_bind a f)"
  unfolding keeps_handle_def
proof
  fix s
  obtain res s1 where as: "a s = (res, s1)" by (cases "a s")
  have a: "opened s1 = opened s \<and> closed s1 = closed s"
    using assms(1)[unfolded keeps_handle_def, rule_format, of s] as by simp
  show "opened (snd (io_bind a f s)) = opened s \<and> closed (snd (io_bind a f s)) = closed s"
  proof (cases res)
    case (Inl e)
    with as a show ?thesis by (simp add: io_bind_def)
  next
    case (Inr x)
    have "opened (snd (f x s1)) = opened s1 \<and> closed (snd (f x s1)) = closed s1"
      using assms(2)[of x, unfolded keeps_handle_def, rule_format, of s1] by simp
    with as Inr a show ?thesis by (simp add: io_bind_def)
  qed
qed

lemma keeps_handle_when: "keeps_handle a \<Longrightarrow> keeps_handle (io_when b a)"
  by (simp add: io_when_def keeps_handle_ret)

lemma keeps_handle_entry: "keeps_handle (write_entry us k)"
  unfolding write_entry_def
  by (rule keeps_handle_bind[OF keeps_handle_lift keeps_handle_write])

lemma keeps_handle_layer: "keeps_handle (write_layer r m tr k)"
  unfolding write_layer_def
  by (intro keeps_handle_bind keeps_handle_when keeps_handle_lift keeps_handle_entry)

lemma keeps_handle_layers: "keeps_handle (write_layers r m tr ks)"
proof (induction ks)
  case Nil
  show ?case by (simp add: keeps_handle_ret)
next
  case (Cons k ks)
  show ?case
    unfolding write_layers.simps
    by (rule keeps_handle_bind[OF keeps_handle_layer]) (rule Cons)
qed

lemma closes_on_return_close: "closes_on_return f_close"
  by (simp add: closes_on_return_def f_close_def)

lemma closes_on_return_bind:
  assumes "keeps_handle a" "\<And>x. closes_on_return (f x)"
  shows "closes_on_return (io_bind a f)"
  unfolding closes_on_return_def
proof
  fix s
  obtain res s1 where as: "a s = (res, s1)" by (cases "a s")
  have a: "opened s1 = opened s \<and> closed s1 = closed s"
    using assms(1)[unfolded keeps_handle_def, rule_format, of s] as by simp
  show "opened (snd (io_bind a f s)) = opened s \<and>
    closed (snd (io_bind a f s)) = (if isl (fst (io_bind a f s)) then closed s else True)"
  proof (cases res)
    case (Inl e)
    with as a show ?thesis by (simp add: io_bind_def)
  next
    case (Inr x)
    have "opened (snd (f x s1)) = opened s1 \<and>
      closed (snd (f x s1)) = (if isl (fst (f x s1)) then closed s1 else True)"
      using assms(2)[of x, unfolded closes_on_return_def, rule_format, of s1] by simp
    with as Inr a show ?thesis by (simp add: io_bind_def)
  qed
qed

text \<open>What \<open>write_file\<close> does between \<open>open\<close> and its end closes the handle on return.\<close>

lemma write_tail_closes:
  "closes_on_return
     (io_bind (f_write [Comment heading]) (\<lambda>_.
      io_bind (f_write [header_line self]) (\<lambda>_.
      io_bind (f_write (string_int (laytyp self))) (\<lambda>_.
      io_bind (f_write (string_int (layavg self))) (\<lambda>_.
      io_bind (f_write (string_real (chani self))) (\<lambda>_.
      io_bind (f_write (string_int (layvka self))) (\<lambda>_.
      io_bind (f_write (string_int (laywet self))) (\<lambda>_.
      io_bind (io_when (sum_list (laywet self) > 0)
         (io_bind (io_lift (wet_line self)) (\<lambda>l. f_write [l]))) (\<lambda>_.
      io_bind (write_layers self m (is_transient m) [0..<nlay m]) (\<lambda>_.
      f_close))))))))))"
  by (intro closes_on_return_bind closes_on_return_close keeps_handle_write
      keeps_handle_when keeps_handle_bind keeps_handle_lift keeps_handle_layers)

text \<open>
  C7 (as amended). \<open>write_file\<close> has closed its handle exactly when it returns: an
  exception leaves the handle as it was, open if the file had been opened. The file is
  opened unless validation raises.
\<close>

theorem C7_write_file_handle:
  "closed (snd (write_file chk r m check st0)) = (fst (write_file chk r m check st0) = Inr ())
   \<and> opened (snd (write_file chk r m check st0))
       = (if check then chk r m 1 = None else True)"
proof (cases "check \<and> chk r m 1 \<noteq> None")
  case True
  then show ?thesis
    by (auto simp: write_file_def io_bind_def io_when_def run_check_def io_raise_def st0_def)
next
  case False
  let ?s = "st0\<lparr>opened := True, closed := False, content := []\<rparr>"
  let ?tail = "io_bind (f_write [Comment heading]) (\<lambda>_.
      io_bind (f_write [header_line r]) (\<lambda>_.
      io_bind (f_write (string_int (laytyp r))) (\<lambda>_.
      io_bind (f_write (string_int (layavg r))) (\<lambda>_.
      io_bind (f_write (string_real (chani r))) (\<lambda>_.
      io_bind (f_write (string_int (layvka r))) (\<lambda>_.
      io_bind (f_write (string_int (laywet r))) (\<lambda>_.
      io_bind (io_when (sum_list (laywet r) > 0)
         (io_bind (io_lift (wet_line r)) (\<lambda>l. f_write [l]))) (\<lambda>_.
      io_bind (write_layers r m (is_transient m) [0..<nlay m]) (\<lambda>_.
      f_close)))))))))"
  have eq: "write_file chk r m check st0 = ?tail ?s"
    using False
    by (auto simp: write_file_def io_bind_def io_when_def run_check_def io_ret_def
        f_open_w_def)
  have "opened (snd (?tail ?s)) = opened ?s \<and>
      closed (snd (?tail ?s)) = (if isl (fst (?tail ?s)) then closed ?s else True)"
    using write_tail_closes[of r m] unfolding closes_on_return_def by blast
  then have "opened (snd (?tail ?s)) \<and> closed (snd (?tail ?s)) = (fst (?tail ?s) = Inr ())"
    by (cases "fst (?tail ?s)") (auto simp: st0_def)
  with eq False show ?thesis by auto
qed

theorem C7_write_file_handle_counterexample:
  "init m1 a_nowetfct = Inr r_nowetfct
   \<and> fst (write_file no_check r_nowetfct m1 True st0) = Inl TypeError
   \<and> opened (snd (write_file no_check r_nowetfct m1 True st0))
   \<and> \<not> closed (snd (write_file no_check r_nowetfct m1 True st0))
   \<and> fst (load toy_par no_check (Map.empty(''model.lpf'' \<mapsto> file_vani))
            (Filename ''model.lpf'') m1 True st0) = Inr r_vani
   \<and> opened (snd (load toy_par no_check (Map.empty(''model.lpf'' \<mapsto> file_vani))
            (Filename ''model.lpf'') m1 True st0))
   \<and> \<not> closed (snd (load toy_par no_check (Map.empty(''model.lpf'' \<mapsto> file_vani))
            (Filename ''model.lpf'') m1 True st0))"
  by (simp add: init_eval io_eval write_eval load_eval r_nowetfct_def a_nowetfct_def
      r_default_def m1_def file_vani_def r_vani_def)

subsection \<open>The steps of a run of the decoder that returns\<close>

lemma load_head_InrE:
  assumes "load_head P fs f m s = (Inr h, sh)"
  obtains s1 t s2 ipak0 hdr npl s3 lt s4 la s5 ch s6 lv s7 lw s8 wfc wit ihd s9 pts pd
  where "f_open_r fs f s = (Inr (), s1)"
    and "read_header_line s1 = (Inr t, s2)"
    and "parse_item1 t = Inr (ipak0, hdr, npl)"
    and "io_when (ipak0 \<noteq> 0) (add_pop_key_list ipak0) s2 = (Inr (), s3)"
    and "read1d py_int (nlay m) s3 = (Inr lt, s4)"
    and "read1d py_int (nlay m) s4 = (Inr la, s5)"
    and "read1d py_float (nlay m) s5 = (Inr ch, s6)"
    and "read1d py_float (nlay m) s6 = (Inr lv, s7)"
    and "read1d py_int (nlay m) s7 = (Inr lw, s8)"
    and "(if sum_list lw > 0
          then io_bind f_readline (\<lambda>line.
               io_bind (io_lift (parse_item7 (line_tokens line))) (\<lambda>(a, b, c).
                 io_ret (Some a, Some b, Some c)))
          else io_ret (None, None, None)) s8 = (Inr (wfc, wit, ihd), s9)"
    and "(if npl > 0
          then io_bind (mfpar_load P npl) (\<lambda>(pts, d). io_ret (pts, Some d))
          else io_ret ([], None)) s9 = (Inr (pts, pd), sh)"
    and "h = \<lparr>h_ipakcb = (if ipak0 \<noteq> 0 then 53 else ipak0), h_hdry = hdr, h_nplpf = npl,
       h_opts = parse_options t, h_laytyp = lt, h_layavg = la, h_chani = ch, h_layvka = lv,
       h_laywet = lw, h_iwetdry = sum_list lw, h_wetfct = wfc, h_iwetit = wit,
       h_ihdwet = ihd, h_par_types = pts, h_parm_dict = pd\<rparr>"
  using assms unfolding load_head_def
  apply -
  apply ((erule io_bindE | simp only: split_paired_all prod.case)+)
  apply (simp add: io_ret_def io_lift_def)
  done

lemma load_stepsE:
  assumes "load P chk fs f m check s = (Inr r, s')"
  obtains h sh acc s11
  where "load_head P fs f m s = (Inr h, sh)"
    and "load_layers P m (h_par_types h) (h_parm_dict h) (is_transient m)
           \<lparr>p_laytyp = h_laytyp h, p_chani = h_chani h, p_layvka = h_layvka h,
              p_laywet = h_laywet h\<rparr>
           [0..<nlay m] (fields0 (nlay m)) sh = (Inr acc, s11)"
    and "init m (load_args (h_ipakcb h) (h_hdry h) (h_laytyp h) (h_layavg h)
                (h_chani h) (h_layvka h) (h_laywet h) (h_iwetdry h) (h_wetfct h) (h_iwetit h)
                (h_ihdwet h) acc (h_opts h)) = Inr r"
    and "io_when check (run_check chk r m 0) s11 = (Inr (), s')"
  using assms unfolding load_def
  apply -
  apply (erule io_bindE)+
  apply (simp add: io_ret_def io_lift_def)
  done

lemma load_InrE:
  assumes "load P chk fs f m check s = (Inr r, s')"
  obtains s1 t s2 ipak0 hdr npl s3 lt s4 la s5 ch s6 lv s7 lw s8 wfc wit ihd s9 pts pd s10
    acc s11
  where "f_open_r fs f s = (Inr (), s1)"
    and "read_header_line s1 = (Inr t, s2)"
    and "parse_item1 t = Inr (ipak0, hdr, npl)"
    and "io_when (ipak0 \<noteq> 0) (add_pop_key_list ipak0) s2 = (Inr (), s3)"
    and "read1d py_int (nlay m) s3 = (Inr lt, s4)"
    and "read1d py_int (nlay m) s4 = (Inr la, s5)"
    and "read1d py_float (nlay m) s5 = (Inr ch, s6)"
    and "read1d py_float (nlay m) s6 = (Inr lv, s7)"
    and "read1d py_int (nlay m) s7 = (Inr lw, s8)"
    and "(if sum_list lw > 0
          then io_bind f_readline (\<lambda>line.
               io_bind (io_lift (parse_item7 (line_tokens line))) (\<lambda>(a, b, c).
                 io_ret (Some a, Some b, Some c)))
          else io_ret (None, None, None)) s8 = (Inr (wfc, wit, ihd), s9)"
    and "(if npl > 0
          then io_bind (mfpar_load P npl) (\<lambda>(pts, d). io_ret (pts, Some d))
          else io_ret ([], None)) s9 = (Inr (pts, pd), s10)"
    and "load_layers P m pts pd (is_transient m)
           \<lparr>p_laytyp = lt, p_chani = ch, p_layvka = lv, p_laywet = lw\<rparr>
           [0..<nlay m] (fields0 (nlay m)) s10 = (Inr acc, s11)"
    and "init m (load_args (if ipak0 \<noteq> 0 then 53 else ipak0) hdr lt la ch lv lw
           (sum_list lw) wfc wit ihd acc (parse_options t)) = Inr r"
    and "io_when check (run_check chk r m 0) s11 = (Inr (), s')"
proof -
  from assms obtain h sh acc s11
    where a: "load_head P fs f m s = (Inr h, sh)"
      and b: "load_layers P m (h_par_types h) (h_parm_dict h) (is_transient m)
           \<lparr>p_laytyp = h_laytyp h, p_chani = h_chani h, p_layvka = h_layvka h,
              p_laywet = h_laywet h\<rparr>
           [0..<nlay m] (fields0 (nlay m)) sh = (Inr acc, s11)"
      and c: "init m (load_args (h_ipakcb h) (h_hdry h) (h_laytyp h) (h_layavg h)
                (h_chani h) (h_layvka h) (h_laywet h) (h_iwetdry h) (h_wetfct h) (h_iwetit h)
                (h_ihdwet h) acc (h_opts h)) = Inr r"
      and d: "io_when check (run_check chk r m 0) s11 = (Inr (), s')"
    by (rule load_stepsE)
  from a show ?thesis
  proof (rule load_head_InrE)
    fix s1 t s2 ipak0 hdr npl s3 lt s4 la s5 ch s6 lv s7 lw s8 wfc wit ihd s9 pts pd
    assume h: "h = \<lparr>h_ipakcb = (if ipak0 \<noteq> 0 then 53 else ipak0), h_hdry = hdr,
       h_nplpf = npl, h_opts = parse_options t, h_laytyp = lt, h_layavg = la, h_chani = ch,
       h_layvka = lv, h_laywet = lw, h_iwetdry = sum_list lw, h_wetfct = wfc, h_iwetit = wit,
       h_ihdwet = ihd, h_par_types = pts, h_parm_dict = pd\<rparr>"
    assume st: "f_open_r fs f s = (Inr (), s1)" "read_header_line s1 = (Inr t, s2)"
      "parse_item1 t = Inr (ipak0, hdr, npl)"
      "io_when (ipak0 \<noteq> 0) (add_pop_key_list ipak0) s2 = (Inr (), s3)"
      "read1d py_int (nlay m) s3 = (Inr lt, s4)"
      "read1d py_int (nlay m) s4 = (Inr la, s5)"
      "read1d py_float (nlay m) s5 = (Inr ch, s6)"
      "read1d py_float (nlay m) s6 = (Inr lv, s7)"
      "read1d py_int (nlay m) s7 = (Inr lw, s8)"
      "(if sum_list lw > 0
          then io_bind f_readline (\<lambda>line.
               io_bind (io_lift (parse_item7 (line_tokens line))) (\<lambda>(a, b, c).
                 io_ret (Some a, Some b, Some c)))
          else io_ret (None, None, None)) s8 = (Inr (wfc, wit, ihd), s9)"
      "(if npl > 0
          then io_bind (mfpar_load P npl) (\<lambda>(pts, d). io_ret (pts, Some d))
          else io_ret ([], None)) s9 = (Inr (pts, pd), sh)"
    from b c show ?thesis
      unfolding h by (simp only: decoded_head.simps) (rule that[OF st _ _ d])
  qed
qed

subsection \<open>The calls of a run of the decoder that returns\<close>

lemma header_calls:
  "read_header_line s = (Inr t, s2) \<Longrightarrow>
   \<exists>n. calls s2 = calls s @ replicate (Suc n) ReadLine"
proof (induction s rule: read_header_line.induct)
  case (1 s)
  obtain l r where rl: "readline (content s) = (l, r)" by fastforce
  let ?s' = "s\<lparr>content := r, calls := calls s @ [ReadLine]\<rparr>"
  have fr: "f_readline s = (Inr l, ?s')" by (simp add: f_readline_def rl)
  show ?case
  proof (cases l)
    case EOF
    with fr "1.prems" show ?thesis by (simp add: read_header_line.simps[of s])
  next
    case (CommentL c)
    with fr "1.prems" have rh: "read_header_line ?s' = (Inr t, s2)"
      by (simp add: read_header_line.simps[of s])
    from "1.IH"[OF fr[symmetric] refl CommentL rh] obtain n
      where "calls s2 = calls ?s' @ replicate (Suc n) ReadLine" by blast
    then have "calls s2 = calls s @ replicate (Suc (Suc n)) ReadLine" by simp
    then show ?thesis by blast
  next
    case (TokL ts)
    with fr "1.prems" have "s2 = ?s'" by (simp add: read_header_line.simps[of s])
    then have "calls s2 = calls s @ replicate (Suc 0) ReadLine" by simp
    then show ?thesis by blast
  qed
qed

lemma read1d_calls:
  "read1d conv n s = (Inr xs, s') \<Longrightarrow> calls s' = calls s @ [Read1d]"
  by (auto simp: read1d_def io_bind_def log_call_def split: prod.splits pyline.splits
      if_splits)

lemma Util2d_load_calls:
  "Util2d_load m nm s = (Inr v, s') \<Longrightarrow> calls s' = calls s @ [RawRead nm]"
  by (auto simp: Util2d_load_def io_bind_def log_call_def split: prod.splits sum.splits)

lemma parameter_fill_calls:
  "parameter_fill P key pd k s = (Inr v, s') \<Longrightarrow> calls s' = calls s @ [ParFill key k]"
  by (auto simp: parameter_fill_def io_bind_def log_call_def io_raise_def io_lift_def
      split: option.splits)

lemma f_readline_calls:
  "f_readline s = (Inr l, s') \<Longrightarrow> calls s' = calls s @ [ReadLine]"
  by (auto simp: f_readline_def split: prod.splits)

lemma load_field_calls:
  assumes "load_field P m pts pd nm k s = (Inr v, s')"
  shows "calls s' = calls s @ field_calls pts nm k"
proof (cases "nm \<in> set pts")
  case False
  with assms show ?thesis
    by (simp add: load_field_def field_calls_def Util2d_load_calls)
next
  case True
  with assms obtain l s1 where a: "f_readline s = (Inr l, s1)"
    and b: "parameter_fill P nm pd k s1 = (Inr v, s')"
    by (auto simp: load_field_def elim: io_bindE)
  from f_readline_calls[OF a] parameter_fill_calls[OF b] True show ?thesis
    by (simp add: field_calls_def)
qed

lemma load_vka_calls:
  assumes "load_vka P m pts pd lvk k s = (Inr v, s')"
  shows "calls s' = calls s @ vka_calls pts lvk k"
proof (cases "''vka'' \<notin> set pts \<and> ''vani'' \<notin> set pts")
  case True
  with assms show ?thesis
    by (auto simp: load_vka_def vka_calls_def Let_def dest: Util2d_load_calls)
next
  case False
  with assms obtain l s1 where a: "f_readline s = (Inr l, s1)"
    and b: "parameter_fill P (if ''vani'' \<in> set pts then ''vani'' else ''vka'') pd k s1
        = (Inr v, s')"
    by (auto simp: load_vka_def Let_def elim: io_bindE)
  from f_readline_calls[OF a] parameter_fill_calls[OF b] False show ?thesis
    by (auto simp: vka_calls_def)
qed

lemma load_layer_calls:
  assumes "load_layer P m pts pd tr fl k acc s = (Inr acc', s')" "tr = is_transient m"
  shows "calls s' = calls s @ layer_calls pts m fl k"
  using assms unfolding load_layer_def
  apply -
  apply (erule io_bindE)+
  apply (auto simp: layer_calls_def io_ret_def io_lift_def nth_e_def
      split: if_splits elim!: io_bindE
      dest!: load_field_calls load_vka_calls Util2d_load_calls)
  done

lemma load_layers_calls:
  assumes "load_layers P m pts pd tr fl ks acc s = (Inr acc', s')" "tr = is_transient m"
  shows "calls s' = calls s @ concat (map (layer_calls pts m fl) ks)"
  using assms
proof (induction ks arbitrary: acc s)
  case Nil
  then show ?case by (simp add: io_ret_def)
next
  case (Cons k ks)
  from Cons.prems(1) obtain acc1 s1
    where a: "load_layer P m pts pd tr fl k acc s = (Inr acc1, s1)"
      and b: "load_layers P m pts pd tr fl ks acc1 s1 = (Inr acc', s')"
    by (auto elim: io_bindE)
  from load_layer_calls[OF a Cons.prems(2)] Cons.IH[OF b Cons.prems(2)]
  show ?case by simp
qed

lemma wet_branch_calls:
  assumes "(if c then io_bind f_readline (\<lambda>line.
               io_bind (io_lift (parse_item7 (line_tokens line))) (\<lambda>(a, b, c).
                 io_ret (Some a, Some b, Some c)))
            else io_ret (None, None, None)) s = (Inr x, s')"
  shows "calls s' = calls s @ (if c then [ReadLine] else [])"
  using assms
  by (auto simp: io_ret_def io_lift_def split: if_splits prod.splits
      elim!: io_bindE dest!: f_readline_calls)

lemma mfpar_load_calls:
  assumes "mfpar_load P n s = (Inr (pts, d), s')"
  shows "calls s' = calls s @ [ParLoad n]"
    "\<exists>its rest. par_load P n its = Inr ((pts, d), rest)"
  using assms
  by (auto simp: mfpar_load_def io_bind_def log_call_def split: prod.splits sum.splits)

lemma par_branch_calls:
  assumes "(if 0 < n then io_bind (mfpar_load P n) (\<lambda>(pts, d). io_ret (pts, Some d))
            else io_ret ([], None)) s = (Inr (pts, pd), s')"
  shows "calls s' = calls s @ (if 0 < n then [ParLoad n] else [])"
    "n \<le> 0 \<longrightarrow> pts = []"
    "0 < n \<longrightarrow> (\<exists>its d rest. par_load P n its = Inr ((pts, d), rest))"
proof -
  show "n \<le> 0 \<longrightarrow> pts = []"
    using assms by (auto simp: io_ret_def)
  show "calls s' = calls s @ (if 0 < n then [ParLoad n] else [])"
  proof (cases "0 < n")
    case False
    with assms show ?thesis by (simp add: io_ret_def)
  next
    case True
    with assms obtain x s1 where a: "mfpar_load P n s = (Inr x, s1)"
      and b: "(case x of (pts, d) \<Rightarrow> io_ret (pts, Some d)) s1 = (Inr (pts, pd), s')"
      by (auto elim: io_bindE)
    obtain p d where x: "x = (p, d)" by (cases x)
    with b have "s1 = s'" by (simp add: io_ret_def)
    with a x True mfpar_load_calls(1)[of P n s p d s1] show ?thesis by simp
  qed
  show "0 < n \<longrightarrow> (\<exists>its d rest. par_load P n its = Inr ((pts, d), rest))"
  proof
    assume n: "0 < n"
    with assms obtain x s1 where a: "mfpar_load P n s = (Inr x, s1)"
      and b: "(case x of (pts, d) \<Rightarrow> io_ret (pts, Some d)) s1 = (Inr (pts, pd), s')"
      by (auto elim: io_bindE)
    obtain p d where x: "x = (p, d)" by (cases x)
    with b have "p = pts" by (simp add: io_ret_def)
    with a x mfpar_load_calls(2)[of P n s p d s1]
    show "\<exists>its d rest. par_load P n its = Inr ((pts, d), rest)" by blast
  qed
qed

lemma f_open_r_calls: "f_open_r fs f s = (Inr (), s1) \<Longrightarrow> calls s1 = calls s"
  by (auto simp: f_open_r_def io_raise_def split: fsrc.splits option.splits)

lemma when_calls:
  "io_when b (add_pop_key_list u) s = (Inr (), s1) \<Longrightarrow> calls s1 = calls s"
  "io_when b (run_check chk r m lev) s = (Inr (), s1) \<Longrightarrow> calls s1 = calls s"
  by (auto simp: io_when_def add_pop_key_list_def run_check_def io_ret_def io_raise_def
      split: if_splits option.splits)

lemma read1d_length: "read1d conv n s = (Inr xs, s') \<Longrightarrow> length xs = n"
proof -
  have m: "map_e conv ts = Inr ys \<Longrightarrow> length ys = length ts" for ts ys
    by (induction ts arbitrary: ys) (auto simp: e_bind_eq_Inr)
  assume "read1d conv n s = (Inr xs, s')"
  then obtain ts where "map_e conv (take n ts) = Inr xs" "n \<le> length ts"
    by (auto simp: read1d_def io_bind_def log_call_def split: prod.splits pyline.splits
        if_splits)
  with m[of "take n ts" xs] show ?thesis by simp
qed


text \<open>What the first part of the decoder has done when it returns.\<close>

lemma f_open_r_pop: "f_open_r fs f s = (Inr (), s1) \<Longrightarrow> pop_key_list s1 = pop_key_list s"
  by (auto simp: f_open_r_def io_raise_def split: fsrc.splits option.splits)

lemma header_pop:
  "read_header_line s = (Inr t, s2) \<Longrightarrow> pop_key_list s2 = pop_key_list s"
proof (induction s rule: read_header_line.induct)
  case (1 s)
  obtain l r where rl: "readline (content s) = (l, r)" by fastforce
  let ?s' = "s\<lparr>content := r, calls := calls s @ [ReadLine]\<rparr>"
  have fr: "f_readline s = (Inr l, ?s')" by (simp add: f_readline_def rl)
  show ?case
  proof (cases l)
    case EOF
    with fr "1.prems" show ?thesis by (simp add: read_header_line.simps[of s])
  next
    case (CommentL c)
    with fr "1.prems" have rh: "read_header_line ?s' = (Inr t, s2)"
      by (simp add: read_header_line.simps[of s])
    from "1.IH"[OF fr[symmetric] refl CommentL rh] show ?thesis by simp
  next
    case (TokL ts)
    with fr "1.prems" have "s2 = ?s'" by (simp add: read_header_line.simps[of s])
    then show ?thesis by simp
  qed
qed

lemma when_pop:
  "io_when (v \<noteq> 0) (add_pop_key_list v) s = (Inr (), s1) \<Longrightarrow>
   pop_key_list s1 = pop_key_list s @ (if v \<noteq> 0 then [v] else [])"
  by (auto simp: io_when_def add_pop_key_list_def io_ret_def split: if_splits)

lemma read1d_pop:
  "read1d conv n s = (Inr xs, s') \<Longrightarrow> pop_key_list s' = pop_key_list s"
  by (auto simp: read1d_def io_bind_def log_call_def split: prod.splits pyline.splits
      if_splits)

lemma f_readline_pop:
  "f_readline s = (Inr l, s') \<Longrightarrow> pop_key_list s' = pop_key_list s"
  by (auto simp: f_readline_def split: prod.splits)

lemma wet_branch_pop:
  assumes "(if c then io_bind f_readline (\<lambda>line.
               io_bind (io_lift (parse_item7 (line_tokens line))) (\<lambda>(a, b, c).
                 io_ret (Some a, Some b, Some c)))
            else io_ret (None, None, None)) s = (Inr x, s')"
  shows "pop_key_list s' = pop_key_list s"
  using assms
  by (auto simp: io_ret_def io_lift_def split: if_splits prod.splits
      elim!: io_bindE dest!: f_readline_pop)

lemma par_branch_pop:
  assumes "(if 0 < n then io_bind (mfpar_load P n) (\<lambda>(pts, d). io_ret (pts, Some d))
            else io_ret ([], None)) s = (Inr (pts, pd), s')"
  shows "pop_key_list s' = pop_key_list s"
  using assms
  by (auto simp: io_ret_def mfpar_load_def io_bind_def log_call_def
      split: if_splits prod.splits sum.splits)

lemma load_head_facts:
  assumes "load_head P fs f m s = (Inr h, sh)"
  shows "\<exists>t v. fst (read_header_line (snd (f_open_r fs f s))) = Inr t
           \<and> parse_item1 t = Inr (v, h_hdry h, h_nplpf h)
           \<and> h_ipakcb h = (if v \<noteq> 0 then 53 else 0)
           \<and> h_opts h = parse_options t
           \<and> pop_key_list sh = pop_key_list s @ (if v \<noteq> 0 then [v] else [])"
    and "\<exists>n. calls sh = calls s @ replicate (Suc n) ReadLine @ replicate 5 Read1d
           @ (if 0 < sum_list (h_laywet h) then [ReadLine] else [])
           @ (if 0 < h_nplpf h then [ParLoad (h_nplpf h)] else [])"
    and "h_nplpf h \<le> 0 \<longrightarrow> h_par_types h = []"
    and "length (h_layvka h) = nlay m"
proof -
  from assms obtain s1 t s2 ipak0 hdr npl s3 lt s4 la s5 ch s6 lv s7 lw s8 wfc wit ihd s9
    pts pd
    where o: "f_open_r fs f s = (Inr (), s1)"
    and hl: "read_header_line s1 = (Inr t, s2)"
    and p: "parse_item1 t = Inr (ipak0, hdr, npl)"
    and w: "io_when (ipak0 \<noteq> 0) (add_pop_key_list ipak0) s2 = (Inr (), s3)"
    and r1: "read1d py_int (nlay m) s3 = (Inr lt, s4)"
    and r2: "read1d py_int (nlay m) s4 = (Inr la, s5)"
    and r3: "read1d py_float (nlay m) s5 = (Inr ch, s6)"
    and r4: "read1d py_float (nlay m) s6 = (Inr lv, s7)"
    and r5: "read1d py_int (nlay m) s7 = (Inr lw, s8)"
    and wb: "(if sum_list lw > 0
          then io_bind f_readline (\<lambda>line.
               io_bind (io_lift (parse_item7 (line_tokens line))) (\<lambda>(a, b, c).
                 io_ret (Some a, Some b, Some c)))
          else io_ret (None, None, None)) s8 = (Inr (wfc, wit, ihd), s9)"
    and pb: "(if npl > 0
          then io_bind (mfpar_load P npl) (\<lambda>(pts, d). io_ret (pts, Some d))
          else io_ret ([], None)) s9 = (Inr (pts, pd), sh)"
    and h: "h = \<lparr>h_ipakcb = (if ipak0 \<noteq> 0 then 53 else ipak0), h_hdry = hdr,
       h_nplpf = npl, h_opts = parse_options t, h_laytyp = lt, h_layavg = la, h_chani = ch,
       h_layvka = lv, h_laywet = lw, h_iwetdry = sum_list lw, h_wetfct = wfc, h_iwetit = wit,
       h_ihdwet = ihd, h_par_types = pts, h_parm_dict = pd\<rparr>"
    by (rule load_head_InrE)
  have pk: "pop_key_list sh = pop_key_list s @ (if ipak0 \<noteq> 0 then [ipak0] else [])"
    using f_open_r_pop[OF o] header_pop[OF hl] when_pop[OF w] read1d_pop[OF r1]
      read1d_pop[OF r2] read1d_pop[OF r3] read1d_pop[OF r4] read1d_pop[OF r5]
      wet_branch_pop[OF wb] par_branch_pop[OF pb]
    by simp
  have t: "fst (read_header_line (snd (f_open_r fs f s))) = Inr t"
    using o hl by simp
  from t p pk
  show "\<exists>t v. fst (read_header_line (snd (f_open_r fs f s))) = Inr t
           \<and> parse_item1 t = Inr (v, h_hdry h, h_nplpf h)
           \<and> h_ipakcb h = (if v \<noteq> 0 then 53 else 0)
           \<and> h_opts h = parse_options t
           \<and> pop_key_list sh = pop_key_list s @ (if v \<noteq> 0 then [v] else [])"
    unfolding h by (intro exI[of _ t] exI[of _ ipak0]) simp
  from header_calls[OF hl] obtain k
    where hc: "calls s2 = calls s1 @ replicate (Suc k) ReadLine" by blast
  have c1: "calls s8 = calls s @ replicate (Suc k) ReadLine @ replicate 5 Read1d"
    using f_open_r_calls[OF o] hc when_calls(1)[OF w] read1d_calls[OF r1]
      read1d_calls[OF r2] read1d_calls[OF r3] read1d_calls[OF r4] read1d_calls[OF r5]
    by (simp add: numeral_eq_Suc)
  have c2: "calls sh = calls s8 @ (if 0 < sum_list lw then [ReadLine] else [])
      @ (if 0 < npl then [ParLoad npl] else [])"
    using wet_branch_calls[OF wb] par_branch_calls(1)[OF pb] by simp
  have "calls sh = calls s @ replicate (Suc k) ReadLine @ replicate 5 Read1d
           @ (if 0 < sum_list (h_laywet h) then [ReadLine] else [])
           @ (if 0 < h_nplpf h then [ParLoad (h_nplpf h)] else [])"
    unfolding c2 c1 h by simp
  then show "\<exists>n. calls sh = calls s @ replicate (Suc n) ReadLine @ replicate 5 Read1d
           @ (if 0 < sum_list (h_laywet h) then [ReadLine] else [])
           @ (if 0 < h_nplpf h then [ParLoad (h_nplpf h)] else [])"
    by blast
  show "h_nplpf h \<le> 0 \<longrightarrow> h_par_types h = []"
    using par_branch_calls(2)[OF pb] unfolding h by simp
  show "length (h_layvka h) = nlay m"
    using read1d_length[OF r4] unfolding h by simp
qed

lemma load_trace:
  assumes "load P chk fs f m check s = (Inr r, s')"
  obtains h sh acc
  where "load_head P fs f m s = (Inr h, sh)"
    and "calls s' = calls sh @ concat (map (layer_calls (h_par_types h) m
            \<lparr>p_laytyp = h_laytyp h, p_chani = h_chani h, p_layvka = h_layvka h,
               p_laywet = h_laywet h\<rparr>) [0..<nlay m])"
    and "init m (load_args (h_ipakcb h) (h_hdry h) (h_laytyp h) (h_layavg h)
                (h_chani h) (h_layvka h) (h_laywet h) (h_iwetdry h) (h_wetfct h) (h_iwetit h)
                (h_ihdwet h) acc (h_opts h)) = Inr r"
proof -
  from assms obtain h sh acc s11
    where a: "load_head P fs f m s = (Inr h, sh)"
      and b: "load_layers P m (h_par_types h) (h_parm_dict h) (is_transient m)
           \<lparr>p_laytyp = h_laytyp h, p_chani = h_chani h, p_layvka = h_layvka h,
              p_laywet = h_laywet h\<rparr>
           [0..<nlay m] (fields0 (nlay m)) sh = (Inr acc, s11)"
      and c: "init m (load_args (h_ipakcb h) (h_hdry h) (h_laytyp h) (h_layavg h)
                (h_chani h) (h_layvka h) (h_laywet h) (h_iwetdry h) (h_wetfct h) (h_iwetit h)
                (h_ihdwet h) acc (h_opts h)) = Inr r"
      and d: "io_when check (run_check chk r m 0) s11 = (Inr (), s')"
    by (rule load_stepsE)
  from load_layers_calls[OF b refl] when_calls(2)[OF d]
  have tr: "calls s' = calls sh @ concat (map (layer_calls (h_par_types h) m
            \<lparr>p_laytyp = h_laytyp h, p_chani = h_chani h, p_layvka = h_layvka h,
               p_laywet = h_laywet h\<rparr>) [0..<nlay m])"
    by simp
  show ?thesis by (rule that[OF a tr c])
qed






subsection \<open>Claims about the header scalars\<close>

text \<open>
  C8. The constructor stores \<open>ipakcb = 0\<close> when it is given 0 and \<open>ipakcb = 53\<close> when it is
  given any other value. In the decoder, \<open>t\<close> being the tokens of the header line and
  \<open>v\<close> the integer of the first token: when the first part of \<open>load\<close> returns, the
  \<open>ipakcb\<close> it holds is 0 if \<open>v = 0\<close> and 53 otherwise, and \<open>v\<close> has been registered
  for removal exactly when it is not 0; when \<open>load\<close> returns a record, the constructor
  was called with that \<open>ipakcb\<close>, already normalised, and the record has it.
\<close>

theorem C8_ipakcb_normalised:
  "(init m a = Inr r0 \<longrightarrow> ipakcb r0 = (if arg_ipakcb a \<noteq> 0 then 53 else 0))
   \<and> (load_head P fs f m s = (Inr ha, sh)
       \<and> fst (read_header_line (snd (f_open_r fs f s))) = Inr t
       \<and> parse_item1 t = Inr (v, x, n)
       \<longrightarrow> h_ipakcb ha = (if v \<noteq> 0 then 53 else 0)
           \<and> pop_key_list sh = pop_key_list s @ (if v \<noteq> 0 then [v] else []))
   \<and> (load P chk fs f m check s = (Inr r, s')
       \<and> fst (read_header_line (snd (f_open_r fs f s))) = Inr t
       \<and> parse_item1 t = Inr (v, x, n)
       \<longrightarrow> ipakcb r = (if v \<noteq> 0 then 53 else 0)
           \<and> (\<exists>h1 s1 acc. load_head P fs f m s = (Inr h1, s1)
                \<and> init m (load_args (h_ipakcb h1) (h_hdry h1) (h_laytyp h1) (h_layavg h1)
                     (h_chani h1) (h_layvka h1) (h_laywet h1) (h_iwetdry h1) (h_wetfct h1)
                     (h_iwetit h1) (h_ihdwet h1) acc (h_opts h1)) = Inr r
                \<and> arg_ipakcb (load_args (h_ipakcb h1) (h_hdry h1) (h_laytyp h1)
                     (h_layavg h1) (h_chani h1) (h_layvka h1) (h_laywet h1) (h_iwetdry h1)
                     (h_wetfct h1) (h_iwetit h1) (h_ihdwet h1) acc (h_opts h1))
                    = (if v \<noteq> 0 then 53 else 0)))"
proof (intro conjI impI)
  assume "init m a = Inr r0"
  then show "ipakcb r0 = (if arg_ipakcb a \<noteq> 0 then 53 else 0)"
    by (rule init_scalars(1))
next
  assume H: "load_head P fs f m s = (Inr ha, sh)
       \<and> fst (read_header_line (snd (f_open_r fs f s))) = Inr t
       \<and> parse_item1 t = Inr (v, x, n)"
  then have L: "load_head P fs f m s = (Inr ha, sh)" by simp
  from load_head_facts(1)[OF L] obtain t' v'
    where "fst (read_header_line (snd (f_open_r fs f s))) = Inr t'"
      and "parse_item1 t' = Inr (v', h_hdry ha, h_nplpf ha)"
      and k: "h_ipakcb ha = (if v' \<noteq> 0 then 53 else 0)"
        "pop_key_list sh = pop_key_list s @ (if v' \<noteq> 0 then [v'] else [])"
    by blast
  with H have "v' = v" by simp
  with k show "h_ipakcb ha = (if v \<noteq> 0 then 53 else 0)"
    "pop_key_list sh = pop_key_list s @ (if v \<noteq> 0 then [v] else [])"
    by simp_all
next
  assume H: "load P chk fs f m check s = (Inr r, s')
       \<and> fst (read_header_line (snd (f_open_r fs f s))) = Inr t
       \<and> parse_item1 t = Inr (v, x, n)"
  then have L: "load P chk fs f m check s = (Inr r, s')" by simp
  from L obtain h1 s1 acc
    where a: "load_head P fs f m s = (Inr h1, s1)"
      and i: "init m (load_args (h_ipakcb h1) (h_hdry h1) (h_laytyp h1) (h_layavg h1)
                (h_chani h1) (h_layvka h1) (h_laywet h1) (h_iwetdry h1) (h_wetfct h1)
                (h_iwetit h1) (h_ihdwet h1) acc (h_opts h1)) = Inr r"
    by (rule load_trace)
  from load_head_facts(1)[OF a] obtain t' v'
    where "fst (read_header_line (snd (f_open_r fs f s))) = Inr t'"
      and "parse_item1 t' = Inr (v', h_hdry h1, h_nplpf h1)"
      and k: "h_ipakcb h1 = (if v' \<noteq> 0 then 53 else 0)"
    by blast
  with H have "v' = v" by simp
  with k have k': "h_ipakcb h1 = (if v \<noteq> 0 then 53 else 0)" by simp
  have g: "arg_ipakcb (load_args (h_ipakcb h1) (h_hdry h1) (h_laytyp h1)
                     (h_layavg h1) (h_chani h1) (h_layvka h1) (h_laywet h1) (h_iwetdry h1)
                     (h_wetfct h1) (h_iwetit h1) (h_ihdwet h1) acc (h_opts h1))
                    = (if v \<noteq> 0 then 53 else 0)"
    using k' by (simp add: load_args_def)
  from init_scalars(1)[OF i] g show "ipakcb r = (if v \<noteq> 0 then 53 else 0)"
    by (simp split: if_splits)
  from a i g show "\<exists>h1 s1 acc. load_head P fs f m s = (Inr h1, s1)
                \<and> init m (load_args (h_ipakcb h1) (h_hdry h1) (h_laytyp h1) (h_layavg h1)
                     (h_chani h1) (h_layvka h1) (h_laywet h1) (h_iwetdry h1) (h_wetfct h1)
                     (h_iwetit h1) (h_ihdwet h1) acc (h_opts h1)) = Inr r
                \<and> arg_ipakcb (load_args (h_ipakcb h1) (h_hdry h1) (h_laytyp h1)
                     (h_layavg h1) (h_chani h1) (h_layvka h1) (h_laywet h1) (h_iwetdry h1)
                     (h_wetfct h1) (h_iwetit h1) (h_ihdwet h1) acc (h_opts h1))
                    = (if v \<noteq> 0 then 53 else 0)"
    by blast
qed

theorem C8_ipakcb_normalised_witness:
  "init m1 (default_args\<lparr>arg_ipakcb := 7\<rparr>) = Inr r_default \<and> ipakcb r_default = 53
   \<and> init m1 (default_args\<lparr>arg_ipakcb := 0\<rparr>) = Inr (r_default\<lparr>ipakcb := 0\<rparr>)
   \<and> fst (read_header_line (snd (f_open_r Map.empty (Handle file_vani) st0)))
       = Inr [IntTok 7, FloatTok 0, IntTok 1]
   \<and> parse_item1 [IntTok 7, FloatTok 0, IntTok 1] = Inr (7, 0, 1)
   \<and> map_sum id h_ipakcb (fst (load_head toy_par Map.empty (Handle file_vani) m1 st0))
       = Inr 53
   \<and> pop_key_list (snd (load_head toy_par Map.empty (Handle file_vani) m1 st0)) = [7]
   \<and> fst (load toy_par no_check Map.empty (Handle file_vani) m1 True st0) = Inr r_vani
   \<and> ipakcb r_vani = 53
   \<and> fst (read_header_line (snd (f_open_r Map.empty (Handle file_rawvani) st0)))
       = Inr [IntTok 0, FloatTok (- (10 ^ 30)), IntTok 0]
   \<and> parse_item1 [IntTok 0, FloatTok (- (10 ^ 30)), IntTok 0] = Inr (0, - (10 ^ 30), 0)
   \<and> map_sum id h_ipakcb (fst (load_head toy_par Map.empty (Handle file_rawvani) m1 st0))
       = Inr 0
   \<and> pop_key_list (snd (load_head toy_par Map.empty (Handle file_rawvani) m1 st0)) = []"
proof -
  have a: "init m1 (default_args\<lparr>arg_ipakcb := 7\<rparr>) = Inr r_default"
    "init m1 (default_args\<lparr>arg_ipakcb := 0\<rparr>) = Inr (r_default\<lparr>ipakcb := 0\<rparr>)"
    by (simp_all add: init_eval m1_def r_default_def)
  obtain s' where l: "load toy_par no_check Map.empty (Handle file_vani) m1 True st0
      = (Inr r_vani, s')"
    by (simp add: init_eval io_eval load_eval m1_def file_vani_def r_vani_def)
  obtain ha sh where lh: "load_head toy_par Map.empty (Handle file_vani) m1 st0
      = (Inr ha, sh)"
    by (simp add: io_eval load_eval m1_def file_vani_def)
  obtain hb sb where lh0: "load_head toy_par Map.empty (Handle file_rawvani) m1 st0
      = (Inr hb, sb)"
    by (simp add: io_eval load_eval m1_def file_rawvani_def)
  have t: "fst (read_header_line (snd (f_open_r Map.empty (Handle file_vani) st0)))
       = Inr [IntTok 7, FloatTok 0, IntTok 1]"
    by (simp add: io_eval load_eval file_vani_def)
  have p: "parse_item1 [IntTok 7, FloatTok 0, IntTok 1] = Inr (7, 0, 1)"
    by (simp add: parse_item1_def py_int_def py_float_def nth_e_def)
  have t0: "fst (read_header_line (snd (f_open_r Map.empty (Handle file_rawvani) st0)))
       = Inr [IntTok 0, FloatTok (- (10 ^ 30)), IntTok 0]"
    by (simp add: io_eval load_eval file_rawvani_def)
  have p0: "parse_item1 [IntTok 0, FloatTok (- (10 ^ 30)), IntTok 0]
      = Inr (0, - (10 ^ 30), 0)"
    by (simp add: parse_item1_def py_int_def py_float_def nth_e_def)
  have e: "pop_key_list st0 = []" by (simp add: st0_def)
  have "ipakcb r_default = 53"
    using C8_ipakcb_normalised[THEN conjunct1, rule_format, OF a(1)] by simp
  moreover have "h_ipakcb ha = 53 \<and> pop_key_list sh = [7]"
    using C8_ipakcb_normalised[THEN conjunct2, THEN conjunct1, rule_format,
        OF conjI[OF lh conjI[OF t p]]] e
    by simp
  moreover have "h_ipakcb hb = 0 \<and> pop_key_list sb = []"
    using C8_ipakcb_normalised[THEN conjunct2, THEN conjunct1, rule_format,
        OF conjI[OF lh0 conjI[OF t0 p0]]] e
    by simp
  moreover have "ipakcb r_vani = 53"
    using C8_ipakcb_normalised[THEN conjunct2, THEN conjunct2, rule_format,
        OF conjI[OF l conjI[OF t p]]]
    by simp
  ultimately show ?thesis using a l lh lh0 t p t0 p0 by simp
qed


text \<open>
  C10. Every record the constructor builds has \<open>nplpf = 0\<close>. So has every record the
  decoder returns, whatever parameter count the header of the file declares, and when
  such a record is written again the third field of the header line is 0.
\<close>

theorem C10_nplpf_zero:
  "(init m a = Inr r0 \<longrightarrow> nplpf r0 = 0)
   \<and> (load P chk fs f m check s = (Inr r, s')
       \<longrightarrow> nplpf r = 0
           \<and> (length (laycbd m) = nlay m
               \<and> fst (write_file chk' r m check' st0) = Inr ()
               \<longrightarrow> content (snd (write_file chk' r m check' st0)) ! 1
                     = Line ([IntTok (ipakcb r), FloatTok (hdry r), IntTok 0]
                             @ map WordTok (py_split (options r)))))"
proof (intro conjI impI)
  assume "init m a = Inr r0"
  then show "nplpf r0 = 0" by (rule init_scalars(2))
next
  assume L: "load P chk fs f m check s = (Inr r, s')"
  from L obtain args where i: "init m args = Inr r"
    by (rule load_InrE)
  from i show n: "nplpf r = 0" by (rule init_scalars(2))
  assume W: "length (laycbd m) = nlay m
    \<and> fst (write_file chk' r m check' st0) = Inr ()"
  then have "write_file chk' r m check' st0 =
      (Inr (), st0\<lparr>opened := True, closed := True, content := spec_file r m\<rparr>)"
    using write_file_content[OF i] by blast
  then show "content (snd (write_file chk' r m check' st0)) ! 1
      = Line ([IntTok (ipakcb r), FloatTok (hdry r), IntTok 0]
              @ map WordTok (py_split (options r)))"
    using n by (simp add: spec_file_def spec_head_def header_line_def)
qed

theorem C10_nplpf_zero_witness:
  "init m1 default_args = Inr r_default \<and> nplpf r_default = 0
   \<and> file_vani ! 1 = Line [IntTok 7, FloatTok 0, IntTok 1]
   \<and> fst (load toy_par no_check Map.empty (Handle file_vani) m1 True st0) = Inr r_vani
   \<and> nplpf r_vani = 0 \<and> length (laycbd m1) = nlay m1
   \<and> fst (write_file no_check r_vani m1 True st0) = Inr ()
   \<and> content (snd (write_file no_check r_vani m1 True st0)) ! 1
       = Line [IntTok 53, FloatTok 0, IntTok 0]"
proof -
  have a: "init m1 default_args = Inr r_default"
    by (simp add: init_eval m1_def r_default_def)
  obtain s' where l: "load toy_par no_check Map.empty (Handle file_vani) m1 True st0
      = (Inr r_vani, s')"
    by (simp add: init_eval io_eval load_eval m1_def file_vani_def r_vani_def)
  have w: "length (laycbd m1) = nlay m1
      \<and> fst (write_file no_check r_vani m1 True st0) = Inr ()"
    by (simp add: io_eval write_eval m1_def r_vani_def const_layer_def)
  have f: "file_vani ! 1 = Line [IntTok 7, FloatTok 0, IntTok 1]"
    by (simp add: file_vani_def file_par_def)
  have o: "options r_vani = '' ''" "ipakcb r_vani = 53" "hdry r_vani = 0"
    by (simp_all add: r_vani_def)
  have "nplpf r_default = 0"
    using C10_nplpf_zero[THEN conjunct1, rule_format, OF a] .
  moreover have "nplpf r_vani = 0"
    using C10_nplpf_zero[THEN conjunct2, rule_format, OF l] by simp
  moreover have "content (snd (write_file no_check r_vani m1 True st0)) ! 1
       = Line [IntTok 53, FloatTok 0, IntTok 0]"
    using C10_nplpf_zero[THEN conjunct2, rule_format, OF l, THEN conjunct2, rule_format,
        OF w] o
    by (simp add: is_space_def)
  ultimately show ?thesis using a l w f by simp
qed

subsection \<open>Claims about the decoder's branches\<close>





text \<open>
  C3. With \<open>chani = 0.5\<close> for the layer, greater than 0 and less than 1, the encoder
  writes a \<open>hani\<close> block for the layer and the decoder asks the raw array reader for it.
\<close>

theorem C3_hani_block_for_positive_chani:
  "init m1 a_halfchani = Inr r_halfchani \<and> 0 < chani r_halfchani ! 0
   \<and> write_file no_check r_halfchani m1 True st0
       = (Inr (), st0\<lparr>opened := True, closed := True, content :=
            [Comment heading, Line [IntTok 53, FloatTok (- (10 ^ 30)), IntTok 0],
             Line [IntTok 0], Line [IntTok 0], Line [FloatTok (1 / 2)], Line [IntTok 0],
             Line [IntTok 0], Ctl ''hk'' (Some 1), Ctl ''hani'' (Some 1),
             Ctl ''vka'' (Some 1)]\<rparr>)
   \<and> calls (snd (load toy_par no_check Map.empty
        (Handle (content (snd (write_file no_check r_halfchani m1 True st0)))) m1 True st0))
       = [ReadLine, ReadLine, Read1d, Read1d, Read1d, Read1d, Read1d,
          RawRead ''hk'', RawRead ''hani'', RawRead ''vka'']"
  by (simp add: init_eval io_eval write_eval load_eval m1_def a_halfchani_def
      r_halfchani_def r_default_def)




subsection \<open>Claims about encoding and decoding again\<close>










end
